theory Spec2Isabelle
  imports Complex_Main "HOL-Library.Sublist"
begin

section \<open>Values of the program\<close>

text \<open>
  The program is one browser script, \<^verbatim>\<open>src/main.js\<close>. Its functions are asynchronous and
  sequential: every \<^verbatim>\<open>await\<close> is finished before the next statement runs, so each function is
  modelled as a pure function of the answers the network gives, returning the list of requests it
  issued (in order) together with its result. A JavaScript string is a \<^typ>\<open>string\<close>.

  The values the script throws: \<^verbatim>\<open>new Error(message)\<close>, the rejection of an axios request
  (with the status of the response when there was one, and its message), and the
  \<^verbatim>\<open>TypeError\<close> of the runtime when a property of \<^verbatim>\<open>undefined\<close> is read or a non-iterable
  value is iterated.
\<close>

datatype error =
    Error string
  | AxiosError "nat option" string
  | TypeError string

text \<open>\<^verbatim>\<open>error.message\<close>.\<close>

fun message :: "error \<Rightarrow> string" where
  "message (Error m) = m"
| "message (AxiosError st m) = m"
| "message (TypeError m) = m"

text \<open>\<^verbatim>\<open>error.response?.status\<close>: only an axios rejection carries a response.\<close>

fun responseStatus :: "error \<Rightarrow> nat option" where
  "responseStatus (AxiosError st m) = st"
| "responseStatus (Error m) = None"
| "responseStatus (TypeError m) = None"

text \<open>The identity \<^verbatim>\<open>{ owner, repo }\<close> kept in the storage slot \<^verbatim>\<open>currentRepo\<close>.\<close>

record repoInfo =
  owner :: string
  repo :: string

text \<open>An element \<^verbatim>\<open>{ path, content }\<close> of the array \<^verbatim>\<open>getMainSourceFiles\<close> returns.\<close>

record sourceFile =
  path :: string
  content :: string

text \<open>
  The requests of the script: \<^verbatim>\<open>axios.get(url, githubConfig)\<close> and
  \<^verbatim>\<open>axios.post(url, data, ...)\<close>, where the data of the one POST is the model name, the
  system message, the user message, the temperature (in tenths) and \<^verbatim>\<open>max_tokens\<close>.
\<close>

record payload =
  model :: string
  systemContent :: string
  userContent :: string
  temperatureTenths :: nat
  max_tokens :: nat

datatype request = GET string | POST string payload

text \<open>
  An item of a directory listing is \<^verbatim>\<open>{ name, path, type }\<close>. The walk looks at \<^verbatim>\<open>type\<close>
  only to tell \<^verbatim>\<open>'file'\<close> from \<^verbatim>\<open>'dir'\<close> and skips an item of any other type. A repository is
  a finite tree, so an item of type \<^verbatim>\<open>'dir'\<close> carries what
  \<^verbatim>\<open>getRepositoryContents(owner, repo, item.path)\<close> answers: the rejection of the request, or the
  body of the response, which is an array of items or (for a path that is no directory) an
  object that cannot be iterated.
\<close>

datatype entry =
    File string string
  | Dir string string "error + contents"
  | Other string string string
and contents =
    Listing "entry list"
  | NotIterable

text \<open>
  What the network answers. \<^verbatim>\<open>repoLookup\<close> is \<^verbatim>\<open>GET /repos/{owner}/{repo}\<close>: the status and
  \<^verbatim>\<open>data.description\<close> of a response axios resolves, or the rejection. \<^verbatim>\<open>fileBody\<close> is the
  outcome of \<^verbatim>\<open>getFileContent(owner, repo, path)\<close>, that is of the request followed by
  \<^verbatim>\<open>atob(response.data.content)\<close>. \<^verbatim>\<open>srcContents\<close> is the outcome of
  \<^verbatim>\<open>getRepositoryContents(owner, repo, 'src')\<close>. \<^verbatim>\<open>completion\<close> is the outcome of the POST to
  the completion endpoint: the rejection, or \<^verbatim>\<open>response.data\<close>.

  Of \<^verbatim>\<open>response.data\<close> the script reads \<^verbatim>\<open>choices[0].message.content\<close>. \<^verbatim>\<open>choices\<close> is
  \<open>None\<close> when the field is missing. A choice is \<open>Choice None\<close> when it has no
  \<^verbatim>\<open>message\<close>. The content of a message is a string, \<open>Text\<close>, or a value that is no
  string (\<^verbatim>\<open>undefined\<close>, \<^verbatim>\<open>null\<close>, a number, an object): the script hands it to the
  library function \<^verbatim>\<open>marked\<close>, which is not part of the source and throws an \<^verbatim>\<open>Error\<close> on
  it, so \<open>NoText\<close> carries the message of that error.
\<close>

datatype content = Text string | NoText string

datatype choice = Choice "content option"

record completionData =
  choices :: "choice list option"

record repoResponse =
  status :: nat
  data_description :: "string option"

record world =
  repoLookup :: "string \<Rightarrow> string \<Rightarrow> error + repoResponse"
  fileBody :: "string \<Rightarrow> string \<Rightarrow> string \<Rightarrow> error + string"
  srcContents :: "string \<Rightarrow> string \<Rightarrow> error + contents"
  completion :: "payload \<Rightarrow> error + completionData"

definition repoUrl :: "string \<Rightarrow> string \<Rightarrow> string" where
  "repoUrl ow rp = ''https://api.github.com/repos/'' @ ow @ ''/'' @ rp"

definition contentsUrl :: "string \<Rightarrow> string \<Rightarrow> string \<Rightarrow> string" where
  "contentsUrl ow rp p = ''https://api.github.com/repos/'' @ ow @ ''/'' @ rp @ ''/contents/'' @ p"

section \<open>String operations of the runtime\<close>

text \<open>\<^verbatim>\<open>s.endsWith(t)\<close> and \<^verbatim>\<open>s.includes(t)\<close>.\<close>

definition endsWith :: "string \<Rightarrow> string \<Rightarrow> bool" where
  "endsWith s t = suffix t s"

definition includesStr :: "string \<Rightarrow> string \<Rightarrow> bool" where
  "includesStr s t = sublist t s"

text \<open>
  \<^verbatim>\<open>s.toLowerCase()\<close> on the ASCII letters; every other character is left as it is.
\<close>

definition lowerChar :: "char \<Rightarrow> char" where
  "lowerChar c =
     (let n = (of_char c :: nat) in if 65 \<le> n \<and> n \<le> 90 then char_of (n + 32) else c)"

definition toLowerCase :: "string \<Rightarrow> string" where
  "toLowerCase s = map lowerChar s"

text \<open>\<^verbatim>\<open>xs.findIndex(P)\<close>: the index of the first element satisfying \<open>P\<close>, or \<open>-1\<close>.\<close>

fun findIndex :: "('a \<Rightarrow> bool) \<Rightarrow> 'a list \<Rightarrow> int" where
  "findIndex P [] = - 1"
| "findIndex P (x # xs) =
     (if P x then 0 else (let i = findIndex P xs in if i = - 1 then - 1 else i + 1))"

text \<open>
  \<^verbatim>\<open>xs.sort(cmp)\<close> is a stable sort. It is modelled by the stable insertion sort: an element is
  put in front of the first element of the sorted rest it does not compare greater than.
\<close>

fun insertBy :: "('a \<Rightarrow> 'a \<Rightarrow> int) \<Rightarrow> 'a \<Rightarrow> 'a list \<Rightarrow> 'a list" where
  "insertBy cmp x [] = [x]"
| "insertBy cmp x (y # ys) = (if cmp x y \<le> 0 then x # y # ys else y # insertBy cmp x ys)"

definition sortBy :: "('a \<Rightarrow> 'a \<Rightarrow> int) \<Rightarrow> 'a list \<Rightarrow> 'a list" where
  "sortBy cmp xs = foldr (insertBy cmp) xs []"

section \<open>The Source File Selector: \<^verbatim>\<open>getMainSourceFiles\<close>\<close>

text \<open>The condition under which the walk fetches a file (lines 214 to 220).\<close>

definition admitted :: "string \<Rightarrow> bool" where
  "admitted name =
     ((endsWith name ''.js'' \<or> endsWith name ''.ts'' \<or> endsWith name ''.jsx'' \<or>
       endsWith name ''.tsx'') \<and>
      \<not> includesStr name ''.test.'' \<and> \<not> includesStr name ''.spec.'' \<and>
      \<not> includesStr name ''.config.'')"

text \<open>
  \<^verbatim>\<open>getFilesFromDirectory(contents, currentPath)\<close>, the loop over the items of a listing. Each
  \<^verbatim>\<open>try\<close> of the loop body catches whatever its block throws, logs it and goes on to the next
  item. The parameter \<^verbatim>\<open>currentPath\<close> is never read and is left out.
\<close>

fun getFilesFromDirectory ::
  "world \<Rightarrow> string \<Rightarrow> string \<Rightarrow> entry list \<Rightarrow> request list \<times> sourceFile list" where
  "getFilesFromDirectory w ow rp [] = ([], [])"
| "getFilesFromDirectory w ow rp (File name p # items) =
     (if admitted name then
        (case fileBody w ow rp p of
           Inl e \<Rightarrow>
             (let (rs, files) = getFilesFromDirectory w ow rp items
              in (GET (contentsUrl ow rp p) # rs, files))
         | Inr c \<Rightarrow>
             (let (rs, files) = getFilesFromDirectory w ow rp items
              in (GET (contentsUrl ow rp p) # rs, \<lparr>path = p, content = c\<rparr> # files)))
      else getFilesFromDirectory w ow rp items)"
| "getFilesFromDirectory w ow rp (Dir name p answer # items) =
     (case answer of
        Inl e \<Rightarrow>
          (let (rs, files) = getFilesFromDirectory w ow rp items
           in (GET (contentsUrl ow rp p) # rs, files))
      | Inr NotIterable \<Rightarrow>
          (let (rs, files) = getFilesFromDirectory w ow rp items
           in (GET (contentsUrl ow rp p) # rs, files))
      | Inr (Listing dirContents) \<Rightarrow>
          (let (rs1, dirFiles) = getFilesFromDirectory w ow rp dirContents;
               (rs, files) = getFilesFromDirectory w ow rp items
           in (GET (contentsUrl ow rp p) # rs1 @ rs, dirFiles @ files)))"
| "getFilesFromDirectory w ow rp (Other name p ty # items) = getFilesFromDirectory w ow rp items"

text \<open>The comparator of the sort (lines 246 to 258).\<close>

definition priority :: "string list" where
  "priority = [''index'', ''main'', ''app'']"

definition compareFiles :: "sourceFile \<Rightarrow> sourceFile \<Rightarrow> int" where
  "compareFiles a b =
     (let aName = toLowerCase (path a);
          bName = toLowerCase (path b);
          aPriority = findIndex (\<lambda>p. includesStr aName p) priority;
          bPriority = findIndex (\<lambda>p. includesStr bName p) priority
      in if aPriority \<noteq> - 1 \<and> bPriority \<noteq> - 1 then aPriority - bPriority
         else if aPriority \<noteq> - 1 then - 1
         else if bPriority \<noteq> - 1 then 1
         else 0)"

text \<open>
  The rank the comparator orders by: the index in \<open>priority\<close> of the first fragment the
  lowercased path contains, and the length of \<open>priority\<close> for a path that contains none.
\<close>

definition priorityRank :: "sourceFile \<Rightarrow> int" where
  "priorityRank f =
     (let i = findIndex (\<lambda>p. includesStr (toLowerCase (path f)) p) priority
      in if i = - 1 then int (length priority) else i)"

text \<open>
  \<^verbatim>\<open>getMainSourceFiles(owner, repo)\<close>. A rejected listing of \<^verbatim>\<open>src\<close> returns the empty array.
  The first call of the walk is outside every inner \<^verbatim>\<open>try\<close>: when the body of the listing
  cannot be iterated, the \<^verbatim>\<open>TypeError\<close> of \<^verbatim>\<open>for ... of\<close> reaches the outer \<^verbatim>\<open>catch\<close>, which
  throws it again.
\<close>

definition getMainSourceFiles ::
  "world \<Rightarrow> string \<Rightarrow> string \<Rightarrow> request list \<times> (error + sourceFile list)" where
  "getMainSourceFiles w ow rp =
     (case srcContents w ow rp of
        Inl e \<Rightarrow> ([GET (contentsUrl ow rp ''src'')], Inr [])
      | Inr NotIterable \<Rightarrow>
          ([GET (contentsUrl ow rp ''src'')], Inl (TypeError ''contents is not iterable''))
      | Inr (Listing contents) \<Rightarrow>
          (let (rs, files) = getFilesFromDirectory w ow rp contents
           in (GET (contentsUrl ow rp ''src'') # rs, Inr (take 5 (sortBy compareFiles files)))))"

section \<open>Configuration, storage and the page\<close>

text \<open>
  The two values of \<^verbatim>\<open>import.meta.env\<close> the script reads; \<open>None\<close> is an undefined value.
  A value passes the test \<^verbatim>\<open>if (!value) throw ...\<close> when it is defined and not the empty string.
\<close>

record env =
  VITE_GITHUB_TOKEN :: "string option"
  VITE_OPENAI_API_KEY :: "string option"

definition configured :: "string option \<Rightarrow> bool" where
  "configured v = (case v of None \<Rightarrow> False | Some s \<Rightarrow> s \<noteq> [])"

text \<open>
  What the handlers change and a caller can see: the storage slot \<^verbatim>\<open>currentRepo\<close> (the script
  writes \<^verbatim>\<open>JSON.stringify({ owner, repo })\<close> and reads it back with \<^verbatim>\<open>JSON.parse\<close>, so the slot
  is modelled by the identity itself, \<open>None\<close> when the slot is empty), the documentation shown in
  the preview area (\<open>None\<close> while nothing has been generated), and the last status card as its
  message and type. The state of the buttons and of the loading indicator is left out.
\<close>

record page =
  currentRepo :: "repoInfo option"
  preview :: "string option"
  statusCard :: "(string \<times> string) option"

section \<open>The connect flow: \<^verbatim>\<open>connectRepository\<close>\<close>

text \<open>
  \<^verbatim>\<open>repoUrl.match(/github\.com\/([^/]+)\/([^/]+)/)\<close>. \<open>matchHere\<close> matches the expression at the
  start of a string: the literal \<^verbatim>\<open>github.com/\<close>, then a greedy non-empty run of characters other
  than a slash, a slash, and a second such run. A shorter first run is never followed by a slash,
  so backtracking finds nothing the greedy runs miss. \<open>matchRepoUrl\<close> is the search from left to
  right for the first position with a match.
\<close>

definition notSlash :: "char \<Rightarrow> bool" where
  "notSlash c = (c \<noteq> CHR ''/'')"

definition matchHere :: "string \<Rightarrow> (string \<times> string) option" where
  "matchHere s =
     (if prefix ''github.com/'' s then
        (let t = drop (length ''github.com/'') s;
             ow = takeWhile notSlash t
         in if ow = [] then None
            else (case dropWhile notSlash t of
                    [] \<Rightarrow> None
                  | c # u \<Rightarrow>
                      (let rp = takeWhile notSlash u
                       in if rp = [] then None else Some (ow, rp))))
      else None)"

fun matchRepoUrl :: "string \<Rightarrow> (string \<times> string) option" where
  "matchRepoUrl [] = None"
| "matchRepoUrl (c # cs) =
     (case matchHere (c # cs) of Some m \<Rightarrow> Some m | None \<Rightarrow> matchRepoUrl cs)"

text \<open>Lines 83 to 93: the identity read from the text of the input field.\<close>

definition extractIdentity :: "string \<Rightarrow> error + repoInfo" where
  "extractIdentity url =
     (if url = [] then Inl (Error ''Please enter a repository URL'')
      else (case matchRepoUrl url of
              None \<Rightarrow> Inl (Error ''Invalid GitHub repository URL'')
            | Some (ow, rp) \<Rightarrow> Inr \<lparr>owner = ow, repo = rp\<rparr>))"

text \<open>
  The shape of a repository URL in the words of the specification, to compare the expression
  with: an optional scheme \<^verbatim>\<open>http://\<close> or \<^verbatim>\<open>https://\<close>, the host \<^verbatim>\<open>github.com\<close>, and after
  it at least two path segments, of which the first two are not empty. \<open>specShape\<close> gives these
  two segments, and \<open>None\<close> for a string of another shape. \<open>splitSlash\<close> cuts a string at its
  slashes.
\<close>

fun splitSlash :: "string \<Rightarrow> string list" where
  "splitSlash [] = [[]]"
| "splitSlash (c # cs) =
     (if c = CHR ''/'' then [] # splitSlash cs
      else (case splitSlash cs of [] \<Rightarrow> [[c]] | x # xs \<Rightarrow> (c # x) # xs))"

definition stripScheme :: "string \<Rightarrow> string" where
  "stripScheme s =
     (if prefix ''https://'' s then drop (length ''https://'') s
      else if prefix ''http://'' s then drop (length ''http://'') s
      else s)"

definition specShape :: "string \<Rightarrow> (string \<times> string) option" where
  "specShape s =
     (case splitSlash (stripScheme s) of
        host # ow # rp # further \<Rightarrow>
          if host = ''github.com'' \<and> ow \<noteq> [] \<and> rp \<noteq> [] then Some (ow, rp) else None
      | _ \<Rightarrow> None)"

text \<open>
  An occurrence of the expression in a string: after the text \<open>pre\<close> comes \<^verbatim>\<open>github.com/\<close>, a
  non-empty segment \<open>ow\<close> without a slash, a slash, and a non-empty segment \<open>rp\<close> without a
  slash that ends the string or is followed by a slash.
\<close>

definition occurrence :: "string \<Rightarrow> string \<Rightarrow> string \<Rightarrow> string \<Rightarrow> string \<Rightarrow> bool" where
  "occurrence s pre ow rp rest =
     (s = pre @ ''github.com/'' @ ow @ ''/'' @ rp @ rest \<and> ow \<noteq> [] \<and> CHR ''/'' \<notin> set ow \<and>
      rp \<noteq> [] \<and> CHR ''/'' \<notin> set rp \<and> (rest = [] \<or> hd rest = CHR ''/''))"

text \<open>
  The \<^verbatim>\<open>try\<close> block of \<^verbatim>\<open>connectRepository\<close>: the requests it issued, and either what it threw
  or the identity it stored (\<open>None\<close> when the status of the response was not 200, in which case
  the block does nothing).
\<close>

definition connectTry :: "env \<Rightarrow> world \<Rightarrow> string \<Rightarrow> request list \<times> (error + repoInfo option)" where
  "connectTry e w url =
     (if \<not> configured (VITE_GITHUB_TOKEN e) then ([], Inl (Error ''GitHub token is not configured''))
      else (case extractIdentity url of
              Inl err \<Rightarrow> ([], Inl err)
            | Inr ident \<Rightarrow>
                (case repoLookup w (owner ident) (repo ident) of
                   Inl err \<Rightarrow> ([GET (repoUrl (owner ident) (repo ident))], Inl err)
                 | Inr response \<Rightarrow>
                     ([GET (repoUrl (owner ident) (repo ident))],
                      Inr (if status response = 200 then Some ident else None)))))"

text \<open>The message of the \<^verbatim>\<open>catch\<close> block (lines 118 to 126).\<close>

definition connectErrorMessage :: "error \<Rightarrow> string" where
  "connectErrorMessage err =
     ''Error connecting to repository. '' @
     (if responseStatus err = Some 401 then
        ''Invalid or missing GitHub token. Please check your configuration.''
      else if responseStatus err = Some 404 then ''Repository not found or private.''
      else if message err \<noteq> [] then message err
      else ''Please check the URL and try again.'')"

definition connectRepository :: "env \<Rightarrow> world \<Rightarrow> string \<Rightarrow> page \<Rightarrow> request list \<times> page" where
  "connectRepository e w url pg =
     (case connectTry e w url of
        (rs, Inl err) \<Rightarrow> (rs, pg\<lparr>statusCard := Some (connectErrorMessage err, ''error'')\<rparr>)
      | (rs, Inr None) \<Rightarrow> (rs, pg)
      | (rs, Inr (Some ident)) \<Rightarrow>
          (rs, pg\<lparr>currentRepo := Some ident,
                  statusCard := Some (''Repository connected successfully!'', ''success'')\<rparr>))"

section \<open>The Repository Structure Fetcher: \<^verbatim>\<open>getRepositoryStructure\<close>\<close>

text \<open>
  A value \<^verbatim>\<open>JSON.parse\<close> returns. An object is the list of its members. The test
  \<^verbatim>\<open>value ? ... : ...\<close> takes the first branch on every value but \<^verbatim>\<open>null\<close>, \<^verbatim>\<open>false\<close>,
  \<^verbatim>\<open>0\<close> and the empty string. \<^verbatim>\<open>value.dependencies\<close> is \<^verbatim>\<open>undefined\<close> (\<open>None\<close>) on a
  value that is no object or has no such member.
\<close>

datatype json =
    JNull
  | JBool bool
  | JNumber rat
  | JString string
  | JArray "json list"
  | JObject "(string \<times> json) list"

fun truthy :: "json \<Rightarrow> bool" where
  "truthy JNull = False"
| "truthy (JBool b) = b"
| "truthy (JNumber n) = (n \<noteq> 0)"
| "truthy (JString s) = (s \<noteq> [])"
| "truthy (JArray xs) = True"
| "truthy (JObject ms) = True"

fun dependencies :: "json \<Rightarrow> json option" where
  "dependencies (JObject ms) = map_of ms ''dependencies''"
| "dependencies j = None"

text \<open>
  The two functions of \<^verbatim>\<open>JSON\<close> are taken as parameters: \<^verbatim>\<open>JSON_parse\<close> gives \<open>None\<close> where
  \<^verbatim>\<open>JSON.parse\<close> throws a \<^verbatim>\<open>SyntaxError\<close>, and \<^verbatim>\<open>JSON_stringify j\<close> is
  \<^verbatim>\<open>JSON.stringify(j, null, 2)\<close>.
\<close>

record jsonApi =
  JSON_parse :: "string \<Rightarrow> json option"
  JSON_stringify :: "json \<Rightarrow> string"

record repoStructure =
  description :: "string option"
  packageJson :: json
  readme :: "string option"

text \<open>
  \<^verbatim>\<open>getRepositoryStructure(owner, repo)\<close>. The rejection of the first request reaches the outer
  \<^verbatim>\<open>catch\<close>, which throws it again. The two inner \<^verbatim>\<open>try\<close> blocks catch everything, so the
  variables \<^verbatim>\<open>packageJson\<close> and \<^verbatim>\<open>readme\<close> keep their initial \<^verbatim>\<open>null\<close>.
\<close>

definition getRepositoryStructure ::
  "jsonApi \<Rightarrow> world \<Rightarrow> string \<Rightarrow> string \<Rightarrow> request list \<times> (error + repoStructure)" where
  "getRepositoryStructure js w ow rp =
     (case repoLookup w ow rp of
        Inl e \<Rightarrow> ([GET (repoUrl ow rp)], Inl e)
      | Inr repoResponse \<Rightarrow>
          (let packageJson =
                 (case fileBody w ow rp ''package.json'' of
                    Inl e \<Rightarrow> JNull
                  | Inr packageResponse \<Rightarrow>
                      (case JSON_parse js packageResponse of None \<Rightarrow> JNull | Some j \<Rightarrow> j));
               readme =
                 (case fileBody w ow rp ''README.md'' of Inl e \<Rightarrow> None | Inr r \<Rightarrow> Some r)
           in ([GET (repoUrl ow rp), GET (contentsUrl ow rp ''package.json''),
                GET (contentsUrl ow rp ''README.md'')],
               Inr \<lparr>description = data_description repoResponse,
                    packageJson = packageJson, readme = readme\<rparr>)))"

section \<open>The Documentation Generator: \<^verbatim>\<open>generateDocumentation\<close>\<close>

text \<open>\<^verbatim>\<open>xs.join(sep)\<close>.\<close>

fun join :: "string \<Rightarrow> string list \<Rightarrow> string" where
  "join sep [] = []"
| "join sep [x] = x"
| "join sep (x # y # ys) = x @ sep @ join sep (y # ys)"

text \<open>The fixed end of the user message (lines 319 to 353).\<close>

definition instructions :: string where
  "instructions =
     ''Please provide a comprehensive README.md including:\<newline>'' @
     ''1. Project Title and Description\<newline>'' @
     ''2. Features\<newline>'' @
     ''3. Technologies Used\<newline>'' @
     ''4. Installation Guide\<newline>'' @
     ''5. Usage Instructions\<newline>'' @
     ''6. API Reference\<newline>'' @
     ''   - Detailed list of all functions/methods\<newline>'' @
     ''   - Parameters and return values\<newline>'' @
     ''   - Example usage for each endpoint/function\<newline>'' @
     ''7. Architecture Overview\<newline>'' @
     ''8. Contributing Guidelines\<newline>'' @
     ''9. Changelog\<newline>'' @
     ''   - Version history\<newline>'' @
     ''   - Notable changes\<newline>'' @
     ''   - Breaking changes\<newline>'' @
     ''10. License Information\<newline>'' @
     ''\<newline>'' @
     ''For the API Reference and Changelog sections, please structure them as collapsible sections using markdown:\<newline>'' @
     ''\<newline>'' @
     ''<details>\<newline>'' @
     ''<summary>API Reference</summary>\<newline>'' @
     ''\<newline>'' @
     ''[API documentation content here]\<newline>'' @
     ''\<newline>'' @
     ''</details>\<newline>'' @
     ''\<newline>'' @
     ''<details>\<newline>'' @
     ''<summary>Changelog</summary>\<newline>'' @
     ''\<newline>'' @
     ''[Changelog content here]\<newline>'' @
     ''\<newline>'' @
     ''</details>\<newline>'' @
     ''\<newline>'' @
     ''Format the response as a proper README.md file with appropriate markdown syntax.''"

text \<open>The user message (lines 309 to 353) and the data of the POST (lines 302 to 357).\<close>

definition userMessage :: "jsonApi \<Rightarrow> repoInfo \<Rightarrow> repoStructure \<Rightarrow> sourceFile list \<Rightarrow> string" where
  "userMessage js repoInfo repoStructure sourceFiles =
     ''Generate a README.md documentation for the project '' @ owner repoInfo @ ''/'' @
     repo repoInfo @ ''\<newline>\<newline>Project Context:\<newline>'' @
     (case description repoStructure of
        None \<Rightarrow> ''No description provided''
      | Some d \<Rightarrow> if d = [] then ''No description provided'' else d) @
     ''\<newline>'' @
     (case readme repoStructure of
        None \<Rightarrow> []
      | Some r \<Rightarrow> if r = [] then [] else ''\<newline>From README:\<newline>'' @ r) @
     ''\<newline>'' @
     (if truthy (packageJson repoStructure) then
        ''\<newline>Dependencies:\<newline>'' @
        (case dependencies (packageJson repoStructure) of
           None \<Rightarrow> ''undefined''
         | Some deps \<Rightarrow> JSON_stringify js deps)
      else []) @
     ''\<newline>\<newline>Source Files:\<newline>'' @
     join ''\<newline>''
       (map (\<lambda>file. ''\<newline>--- '' @ path file @ '' ---\<newline>'' @ content file) sourceFiles) @
     ''\<newline>\<newline>'' @ instructions"

definition completionUrl :: string where
  "completionUrl = ''https://api.openai.com/v1/chat/completions''"

definition requestData :: "jsonApi \<Rightarrow> repoInfo \<Rightarrow> repoStructure \<Rightarrow> sourceFile list \<Rightarrow> payload" where
  "requestData js repoInfo repoStructure sourceFiles =
     \<lparr>model = ''gpt-4-turbo-preview'',
      systemContent = ''You are a technical documentation expert. Generate comprehensive documentation in a clear, well-structured README format. Include detailed code examples, API references, and changelog where relevant.'',
      userContent = userMessage js repoInfo repoStructure sourceFiles,
      temperatureTenths = 7,
      max_tokens = 4000\<rparr>"

text \<open>
  Lines 295 to 378, the part of the handler that runs once the structure and the selected files
  are there: the requests it issued, and what it threw or the documentation it put in the
  preview area. Reading \<^verbatim>\<open>choices[0].message.content\<close> throws a \<^verbatim>\<open>TypeError\<close> at the first
  \<^verbatim>\<open>undefined\<close> on the way (the texts are those of V8); a content that is no string makes
  \<^verbatim>\<open>marked\<close> throw its own error when the preview is built.
\<close>

definition generate ::
  "jsonApi \<Rightarrow> world \<Rightarrow> repoInfo \<Rightarrow> repoStructure \<Rightarrow> sourceFile list \<Rightarrow>
   request list \<times> (error + string)" where
  "generate js w repoInfo repoStructure sourceFiles =
     (if sourceFiles = [] then
        ([], Inl (Error ''No source files found. Please ensure the repository contains JavaScript/TypeScript files.''))
      else
        (let body = requestData js repoInfo repoStructure sourceFiles
         in (case completion w body of
               Inl e \<Rightarrow> ([POST completionUrl body], Inl e)
             | Inr response \<Rightarrow>
                 ([POST completionUrl body],
                  (case choices response of
                     None \<Rightarrow>
                       Inl (TypeError (''Cannot read properties of undefined (reading '' @ [CHR 0x27] @
                                       ''0'' @ [CHR 0x27] @ '')''))
                   | Some [] \<Rightarrow>
                       Inl (TypeError (''Cannot read properties of undefined (reading '' @ [CHR 0x27] @
                                       ''message'' @ [CHR 0x27] @ '')''))
                   | Some (Choice None # cs) \<Rightarrow>
                       Inl (TypeError (''Cannot read properties of undefined (reading '' @ [CHR 0x27] @
                                       ''content'' @ [CHR 0x27] @ '')''))
                   | Some (Choice (Some (NoText markedMessage)) # cs) \<Rightarrow>
                       Inl (Error markedMessage)
                   | Some (Choice (Some (Text documentation)) # cs) \<Rightarrow> Inr documentation)))))"

text \<open>The \<^verbatim>\<open>try\<close> block of \<^verbatim>\<open>generateDocumentation\<close> (lines 283 to 424).\<close>

definition generateTry ::
  "env \<Rightarrow> jsonApi \<Rightarrow> world \<Rightarrow> page \<Rightarrow> request list \<times> (error + string)" where
  "generateTry e js w pg =
     (if \<not> configured (VITE_OPENAI_API_KEY e) then
        ([], Inl (Error ''OpenAI API key is not configured''))
      else
        (case currentRepo pg of
           None \<Rightarrow> ([], Inl (Error ''Please connect a repository first''))
         | Some repoInfo \<Rightarrow>
             (case getRepositoryStructure js w (owner repoInfo) (repo repoInfo) of
                (rs1, Inl err) \<Rightarrow> (rs1, Inl err)
              | (rs1, Inr repoStructure) \<Rightarrow>
                  (case getMainSourceFiles w (owner repoInfo) (repo repoInfo) of
                     (rs2, Inl err) \<Rightarrow> (rs1 @ rs2, Inl err)
                   | (rs2, Inr sourceFiles) \<Rightarrow>
                       (case generate js w repoInfo repoStructure sourceFiles of
                          (rs3, result) \<Rightarrow> (rs1 @ rs2 @ rs3, result))))))"

text \<open>
  \<^verbatim>\<open>generateDocumentation()\<close>: the \<^verbatim>\<open>catch\<close> block shows
  \<^verbatim>\<open>error.message || 'Error generating documentation. Please try again.'\<close> and leaves the
  preview area as it was.
\<close>

definition generateDocumentation :: "env \<Rightarrow> jsonApi \<Rightarrow> world \<Rightarrow> page \<Rightarrow> request list \<times> page" where
  "generateDocumentation e js w pg =
     (case generateTry e js w pg of
        (rs, Inl err) \<Rightarrow>
          (rs, pg\<lparr>statusCard :=
                   Some (if message err \<noteq> [] then message err
                         else ''Error generating documentation. Please try again.'', ''error'')\<rparr>)
      | (rs, Inr documentation) \<Rightarrow>
          (rs, pg\<lparr>preview := Some documentation,
                  statusCard := Some (''Documentation generated successfully!'', ''success'')\<rparr>))"

section \<open>The kinds of failure\<close>

text \<open>
  Modelled from the spec: the error taxonomy of its section 7, which the source does not declare
  (the script throws plain \<^verbatim>\<open>Error\<close> values with a message, and lets axios and the runtime
  throw theirs). A missing credential is a \<open>ConfigError\<close>; a response with status 401 an
  \<open>AuthError\<close>, with status 404 a \<open>NotFoundError\<close>; an invalid or insufficient input (no or a
  malformed URL, no connected repository, no eligible file) an \<open>InputError\<close>; any other network
  or malformed-response condition a \<open>TransportError\<close>.
\<close>

datatype errorKind = ConfigError | AuthError | NotFoundError | InputError | TransportError

fun kindOf :: "error \<Rightarrow> errorKind" where
  "kindOf (Error m) =
     (if m = ''GitHub token is not configured'' \<or> m = ''OpenAI API key is not configured''
      then ConfigError
      else if m = ''Please enter a repository URL'' \<or> m = ''Invalid GitHub repository URL'' \<or>
              m = ''Please connect a repository first'' \<or>
              m = ''No source files found. Please ensure the repository contains JavaScript/TypeScript files.''
      then InputError
      else TransportError)"
| "kindOf (AxiosError st m) =
     (if st = Some 401 then AuthError else if st = Some 404 then NotFoundError else TransportError)"
| "kindOf (TypeError m) = TransportError"

section \<open>Example inputs\<close>

text \<open>
  A repository \<^verbatim>\<open>octocat/hello\<close> whose \<^verbatim>\<open>src\<close> holds the six files of the example of the
  specification, every file body being a comment with the path of the file; the completion
  endpoint answers with one choice.
\<close>

definition notFound :: error where
  "notFound = AxiosError (Some 404) ''Request failed with status code 404''"

definition exampleListing :: "entry list" where
  "exampleListing =
     [File ''utils.js'' ''src/utils.js'', File ''index.js'' ''src/index.js'',
      File ''app.jsx'' ''src/app.jsx'', File ''main.ts'' ''src/main.ts'',
      File ''x.test.js'' ''src/x.test.js'', File ''y.config.js'' ''src/y.config.js'']"

definition exampleWorld :: world where
  "exampleWorld =
     \<lparr>repoLookup = (\<lambda>ow rp.
        if ow = ''octocat'' \<and> rp = ''hello''
        then Inr \<lparr>status = 200, data_description = Some ''A greeting''\<rparr>
        else Inl notFound),
      fileBody = (\<lambda>ow rp p. if p = ''package.json'' then Inl notFound else Inr (''// '' @ p)),
      srcContents = (\<lambda>ow rp. Inr (Listing exampleListing)),
      completion = (\<lambda>body. Inr \<lparr>choices = Some [Choice (Some (Text ''# hello''))]\<rparr>)\<rparr>"

definition exampleJson :: jsonApi where
  "exampleJson = \<lparr>JSON_parse = (\<lambda>s. None), JSON_stringify = (\<lambda>j. ''{}'')\<rparr>"

definition exampleEnv :: env where
  "exampleEnv = \<lparr>VITE_GITHUB_TOKEN = Some ''ghp_x'', VITE_OPENAI_API_KEY = Some ''sk-x''\<rparr>"

definition examplePage :: page where
  "examplePage =
     \<lparr>currentRepo = Some \<lparr>owner = ''octocat'', repo = ''hello''\<rparr>, preview = None,
      statusCard = None\<rparr>"

text \<open>
  A listing of \<^verbatim>\<open>src\<close> with seven admitted files, two of them in a subdirectory; and a world
  in which the body of \<^verbatim>\<open>src/lib.js\<close> cannot be fetched.
\<close>

definition sevenFiles :: "entry list" where
  "sevenFiles =
     [File ''a.js'' ''src/a.js'', File ''b.js'' ''src/b.js'', File ''c.ts'' ''src/c.ts'',
      Dir ''lib'' ''src/lib'' (Inr (Listing
        [File ''d.tsx'' ''src/lib/d.tsx'', File ''main.js'' ''src/lib/main.js''])),
      File ''e.jsx'' ''src/e.jsx'', File ''f.js'' ''src/f.js'']"

definition brokenWorld :: world where
  "brokenWorld =
     exampleWorld\<lparr>fileBody := (\<lambda>ow rp p. if p = ''src/lib.js'' then Inl notFound else Inr (''// '' @ p))\<rparr>"

section \<open>Auxiliary facts\<close>

lemmas string_eval =
  admitted_def endsWith_def includesStr_def suffix_to_prefix sublist_code
  toLowerCase_def lowerChar_def priority_def

text \<open>The walk of a listing is the concatenation of the walks of its items.\<close>

lemma walk_append:
  "getFilesFromDirectory w ow rp (xs @ ys) =
     (fst (getFilesFromDirectory w ow rp xs) @ fst (getFilesFromDirectory w ow rp ys),
      snd (getFilesFromDirectory w ow rp xs) @ snd (getFilesFromDirectory w ow rp ys))"
proof (induction w ow rp xs rule: getFilesFromDirectory.induct)
  case (1 w ow rp)
  show ?case by simp
next
  case (2 w ow rp name p items)
  show ?case
  proof (cases "admitted name")
    case False
    with 2 show ?thesis by simp
  next
    case True
    show ?thesis
    proof (cases "fileBody w ow rp p")
      case (Inl e)
      from 2(1) [OF True Inl] True Inl show ?thesis
        by (simp add: case_prod_unfold Let_def)
    next
      case (Inr c)
      from 2(2) [OF True Inr] True Inr show ?thesis
        by (simp add: case_prod_unfold Let_def)
    qed
  qed
next
  case (3 w ow rp name p answer items)
  show ?case
  proof (cases answer)
    case (Inl e)
    from 3(1) [OF Inl] Inl show ?thesis
      by (simp add: case_prod_unfold Let_def)
  next
    case (Inr b)
    show ?thesis
    proof (cases b)
      case NotIterable
      from 3(4) [OF Inr NotIterable] Inr NotIterable show ?thesis
        by (simp add: case_prod_unfold Let_def)
    next
      case (Listing ds)
      from 3(3) [OF Inr Listing refl prod.collapse] Inr Listing show ?thesis
        by (simp add: case_prod_unfold Let_def)
    qed
  qed
next
  case (4 w ow rp name p ty items)
  then show ?case by simp
qed

text \<open>
  The sign of the comparator is the sign of the difference of the ranks, so the comparator is a
  consistent ordering and the sort of the selector is the stable sort by \<open>priorityRank\<close>:
  whatever stable algorithm the runtime uses, the result is the same.
\<close>

lemma findIndex_range:
  "findIndex P xs = - 1 \<or> (0 \<le> findIndex P xs \<and> findIndex P xs < int (length xs))"
  by (induction xs) (auto simp: Let_def)

lemma compareFiles_sgn:
  "sgn (compareFiles a b) = sgn (priorityRank a - priorityRank b)"
  using findIndex_range [of "\<lambda>p. includesStr (toLowerCase (path a)) p" priority]
        findIndex_range [of "\<lambda>p. includesStr (toLowerCase (path b)) p" priority]
  by (auto simp: compareFiles_def priorityRank_def Let_def sgn_if)

lemma compareFiles_le: "compareFiles a b \<le> 0 \<longleftrightarrow> priorityRank a \<le> priorityRank b"
  using findIndex_range [of "\<lambda>p. includesStr (toLowerCase (path a)) p" priority]
        findIndex_range [of "\<lambda>p. includesStr (toLowerCase (path b)) p" priority]
  by (auto simp: compareFiles_def priorityRank_def Let_def)

lemma insertBy_insort: "insertBy compareFiles x ys = insort_key priorityRank x ys"
  by (induction ys) (simp_all add: compareFiles_le)

lemma sortBy_sort_key: "sortBy compareFiles xs = sort_key priorityRank xs"
  by (induction xs) (simp_all add: sortBy_def insertBy_insort sort_key_def)

section \<open>The walk, the sort and the selection\<close>

text \<open>
  C1. When \<^verbatim>\<open>src\<close> lists \<^verbatim>\<open>utils.js\<close>, \<^verbatim>\<open>index.js\<close>, \<^verbatim>\<open>app.jsx\<close>, \<^verbatim>\<open>main.ts\<close>,
  \<^verbatim>\<open>x.test.js\<close> and \<^verbatim>\<open>y.config.js\<close> and the four admitted bodies can be fetched, the selector
  leaves the last two out and returns the other four in the order \<^verbatim>\<open>src/index.js\<close>,
  \<^verbatim>\<open>src/main.ts\<close>, \<^verbatim>\<open>src/app.jsx\<close>, \<^verbatim>\<open>src/utils.js\<close>. In general the sorted files are in
  ascending order of the first priority fragment their lowercased path contains, the files
  containing no fragment coming last, and the files of one rank keep the order they had before
  the sort.
\<close>

theorem selector_example_order:
  "(srcContents w ow rp = Inr (Listing
      [File ''utils.js'' ''src/utils.js'', File ''index.js'' ''src/index.js'',
       File ''app.jsx'' ''src/app.jsx'', File ''main.ts'' ''src/main.ts'',
       File ''x.test.js'' ''src/x.test.js'', File ''y.config.js'' ''src/y.config.js'']) \<and>
    (\<forall>p \<in> set [''src/utils.js'', ''src/index.js'', ''src/app.jsx'', ''src/main.ts''].
        fileBody w ow rp p = Inr (body p)) \<longrightarrow>
    snd (getMainSourceFiles w ow rp) = Inr
      [\<lparr>path = ''src/index.js'', content = body ''src/index.js''\<rparr>,
       \<lparr>path = ''src/main.ts'', content = body ''src/main.ts''\<rparr>,
       \<lparr>path = ''src/app.jsx'', content = body ''src/app.jsx''\<rparr>,
       \<lparr>path = ''src/utils.js'', content = body ''src/utils.js''\<rparr>]) \<and>
   sorted (map priorityRank (sortBy compareFiles files)) \<and>
   filter (\<lambda>f. priorityRank f = k) (sortBy compareFiles files) =
     filter (\<lambda>f. priorityRank f = k) files"
proof (intro conjI impI)
  assume "srcContents w ow rp = Inr (Listing
      [File ''utils.js'' ''src/utils.js'', File ''index.js'' ''src/index.js'',
       File ''app.jsx'' ''src/app.jsx'', File ''main.ts'' ''src/main.ts'',
       File ''x.test.js'' ''src/x.test.js'', File ''y.config.js'' ''src/y.config.js'']) \<and>
    (\<forall>p \<in> set [''src/utils.js'', ''src/index.js'', ''src/app.jsx'', ''src/main.ts''].
        fileBody w ow rp p = Inr (body p))"
  then show "snd (getMainSourceFiles w ow rp) = Inr
      [\<lparr>path = ''src/index.js'', content = body ''src/index.js''\<rparr>,
       \<lparr>path = ''src/main.ts'', content = body ''src/main.ts''\<rparr>,
       \<lparr>path = ''src/app.jsx'', content = body ''src/app.jsx''\<rparr>,
       \<lparr>path = ''src/utils.js'', content = body ''src/utils.js''\<rparr>]"
    by (simp add: getMainSourceFiles_def string_eval sortBy_def compareFiles_def Let_def)
next
  show "sorted (map priorityRank (sortBy compareFiles files))"
    by (simp add: sortBy_sort_key)
next
  show "filter (\<lambda>f. priorityRank f = k) (sortBy compareFiles files) =
     filter (\<lambda>f. priorityRank f = k) files"
    by (simp add: sortBy_sort_key sort_key_stable)
qed

theorem selector_example_order_witness:
  "snd (getMainSourceFiles exampleWorld ''octocat'' ''hello'') = Inr
      [\<lparr>path = ''src/index.js'', content = ''// src/index.js''\<rparr>,
       \<lparr>path = ''src/main.ts'', content = ''// src/main.ts''\<rparr>,
       \<lparr>path = ''src/app.jsx'', content = ''// src/app.jsx''\<rparr>,
       \<lparr>path = ''src/utils.js'', content = ''// src/utils.js''\<rparr>]"
  using selector_example_order
    [of exampleWorld "''octocat''" "''hello''" "\<lambda>p. ''// '' @ p" "[]" 0]
  by (simp add: exampleWorld_def exampleListing_def)

text \<open>
  C2. Whatever the repository holds, an array returned by \<^verbatim>\<open>getMainSourceFiles\<close> has at most
  five elements; and an array is returned unless the answer for \<^verbatim>\<open>src\<close> is no listing.
\<close>

theorem selector_returns_at_most_five:
  "(\<forall>files. snd (getMainSourceFiles w ow rp) = Inr files \<longrightarrow> length files \<le> 5) \<and>
   (srcContents w ow rp \<noteq> Inr NotIterable \<longrightarrow>
      (\<exists>files. snd (getMainSourceFiles w ow rp) = Inr files))"
  by (auto simp: getMainSourceFiles_def case_prod_unfold Let_def
           split: sum.splits contents.splits)

theorem selector_returns_at_most_five_witness:
  "snd (getMainSourceFiles (exampleWorld\<lparr>srcContents := \<lambda>ow rp. Inr (Listing sevenFiles)\<rparr>)
          ''octocat'' ''hello'') =
     Inr [\<lparr>path = ''src/lib/main.js'', content = ''// src/lib/main.js''\<rparr>,
          \<lparr>path = ''src/a.js'', content = ''// src/a.js''\<rparr>,
          \<lparr>path = ''src/b.js'', content = ''// src/b.js''\<rparr>,
          \<lparr>path = ''src/c.ts'', content = ''// src/c.ts''\<rparr>,
          \<lparr>path = ''src/lib/d.tsx'', content = ''// src/lib/d.tsx''\<rparr>] \<and>
   length [\<lparr>path = ''src/lib/main.js'', content = ''// src/lib/main.js''\<rparr>,
          \<lparr>path = ''src/a.js'', content = ''// src/a.js''\<rparr>,
          \<lparr>path = ''src/b.js'', content = ''// src/b.js''\<rparr>,
          \<lparr>path = ''src/c.ts'', content = ''// src/c.ts''\<rparr>,
          \<lparr>path = ''src/lib/d.tsx'', content = ''// src/lib/d.tsx''\<rparr>] \<le> 5"
proof -
  have h: "snd (getMainSourceFiles
                  (exampleWorld\<lparr>srcContents := \<lambda>ow rp. Inr (Listing sevenFiles)\<rparr>)
                  ''octocat'' ''hello'') =
     Inr [\<lparr>path = ''src/lib/main.js'', content = ''// src/lib/main.js''\<rparr>,
          \<lparr>path = ''src/a.js'', content = ''// src/a.js''\<rparr>,
          \<lparr>path = ''src/b.js'', content = ''// src/b.js''\<rparr>,
          \<lparr>path = ''src/c.ts'', content = ''// src/c.ts''\<rparr>,
          \<lparr>path = ''src/lib/d.tsx'', content = ''// src/lib/d.tsx''\<rparr>]"
    by (simp add: getMainSourceFiles_def exampleWorld_def sevenFiles_def string_eval sortBy_def
          compareFiles_def Let_def)
  from selector_returns_at_most_five
    [of "exampleWorld\<lparr>srcContents := \<lambda>ow rp. Inr (Listing sevenFiles)\<rparr>" "''octocat''"
        "''hello''"]
  have "\<forall>files. snd (getMainSourceFiles
                  (exampleWorld\<lparr>srcContents := \<lambda>ow rp. Inr (Listing sevenFiles)\<rparr>)
                  ''octocat'' ''hello'') = Inr files \<longrightarrow> length files \<le> 5"
    by (rule conjunct1)
  with h show ?thesis by blast
qed

text \<open>
  C7. When the request for the listing of \<^verbatim>\<open>src\<close> is rejected, \<^verbatim>\<open>getMainSourceFiles\<close> returns
  the empty array, after that one request, and throws nothing.
\<close>

theorem root_listing_failure_gives_empty:
  "srcContents w ow rp = Inl e \<Longrightarrow>
   getMainSourceFiles w ow rp = ([GET (contentsUrl ow rp ''src'')], Inr [])"
  by (simp add: getMainSourceFiles_def)

theorem root_listing_failure_gives_empty_witness:
  "srcContents (exampleWorld\<lparr>srcContents := \<lambda>ow rp. Inl notFound\<rparr>) ''octocat'' ''hello'' =
     Inl notFound \<and>
   getMainSourceFiles (exampleWorld\<lparr>srcContents := \<lambda>ow rp. Inl notFound\<rparr>) ''octocat'' ''hello'' =
     ([GET ''https://api.github.com/repos/octocat/hello/contents/src''], Inr [])"
  using root_listing_failure_gives_empty
    [of "exampleWorld\<lparr>srcContents := \<lambda>ow rp. Inl notFound\<rparr>" "''octocat''" "''hello''" notFound]
  by (simp add: contentsUrl_def)

text \<open>
  C8. In the walk, an admitted file whose body cannot be fetched, and a directory whose listing
  is rejected or cannot be iterated, cost one request and contribute no file: the result is
  that of the items before followed by that of the items after, which are walked all the same.
  The walk itself throws nothing, so once \<^verbatim>\<open>src\<close> has been listed the selector returns an
  array.
\<close>

theorem walk_skips_failing_items:
  "(admitted name \<and> fileBody w ow rp p = Inl e \<longrightarrow>
      getFilesFromDirectory w ow rp (before @ File name p # after) =
        (fst (getFilesFromDirectory w ow rp before) @ GET (contentsUrl ow rp p) #
           fst (getFilesFromDirectory w ow rp after),
         snd (getFilesFromDirectory w ow rp before) @ snd (getFilesFromDirectory w ow rp after))) \<and>
   ((answer = Inl e \<or> answer = Inr NotIterable) \<longrightarrow>
      getFilesFromDirectory w ow rp (before @ Dir name p answer # after) =
        (fst (getFilesFromDirectory w ow rp before) @ GET (contentsUrl ow rp p) #
           fst (getFilesFromDirectory w ow rp after),
         snd (getFilesFromDirectory w ow rp before) @ snd (getFilesFromDirectory w ow rp after))) \<and>
   (srcContents w ow rp = Inr (Listing items) \<longrightarrow>
      snd (getMainSourceFiles w ow rp) =
        Inr (take 5 (sortBy compareFiles (snd (getFilesFromDirectory w ow rp items)))))"
proof (intro conjI impI)
  assume "admitted name \<and> fileBody w ow rp p = Inl e"
  then show "getFilesFromDirectory w ow rp (before @ File name p # after) =
        (fst (getFilesFromDirectory w ow rp before) @ GET (contentsUrl ow rp p) #
           fst (getFilesFromDirectory w ow rp after),
         snd (getFilesFromDirectory w ow rp before) @ snd (getFilesFromDirectory w ow rp after))"
    by (simp add: walk_append [of w ow rp before] case_prod_unfold Let_def)
next
  assume "answer = Inl e \<or> answer = Inr NotIterable"
  then show "getFilesFromDirectory w ow rp (before @ Dir name p answer # after) =
        (fst (getFilesFromDirectory w ow rp before) @ GET (contentsUrl ow rp p) #
           fst (getFilesFromDirectory w ow rp after),
         snd (getFilesFromDirectory w ow rp before) @ snd (getFilesFromDirectory w ow rp after))"
    by (auto simp: walk_append [of w ow rp before] case_prod_unfold Let_def)
next
  assume "srcContents w ow rp = Inr (Listing items)"
  then show "snd (getMainSourceFiles w ow rp) =
        Inr (take 5 (sortBy compareFiles (snd (getFilesFromDirectory w ow rp items))))"
    by (simp add: getMainSourceFiles_def case_prod_unfold Let_def)
qed

theorem walk_skips_failing_items_witness:
  "getFilesFromDirectory brokenWorld ''octocat'' ''hello''
     ([File ''a.js'' ''src/a.js''] @ File ''lib.js'' ''src/lib.js'' # [File ''c.js'' ''src/c.js'']) =
     ([GET ''https://api.github.com/repos/octocat/hello/contents/src/a.js'',
       GET ''https://api.github.com/repos/octocat/hello/contents/src/lib.js'',
       GET ''https://api.github.com/repos/octocat/hello/contents/src/c.js''],
      [\<lparr>path = ''src/a.js'', content = ''// src/a.js''\<rparr>,
       \<lparr>path = ''src/c.js'', content = ''// src/c.js''\<rparr>]) \<and>
   getFilesFromDirectory brokenWorld ''octocat'' ''hello''
     ([File ''a.js'' ''src/a.js''] @ Dir ''lib.js'' ''src/lib.js'' (Inl notFound) #
      [File ''c.js'' ''src/c.js'']) =
     ([GET ''https://api.github.com/repos/octocat/hello/contents/src/a.js'',
       GET ''https://api.github.com/repos/octocat/hello/contents/src/lib.js'',
       GET ''https://api.github.com/repos/octocat/hello/contents/src/c.js''],
      [\<lparr>path = ''src/a.js'', content = ''// src/a.js''\<rparr>,
       \<lparr>path = ''src/c.js'', content = ''// src/c.js''\<rparr>]) \<and>
   snd (getMainSourceFiles brokenWorld ''octocat'' ''hello'') = Inr
      [\<lparr>path = ''src/index.js'', content = ''// src/index.js''\<rparr>,
       \<lparr>path = ''src/main.ts'', content = ''// src/main.ts''\<rparr>,
       \<lparr>path = ''src/app.jsx'', content = ''// src/app.jsx''\<rparr>,
       \<lparr>path = ''src/utils.js'', content = ''// src/utils.js''\<rparr>]"
  using walk_skips_failing_items
    [of "''lib.js''" brokenWorld "''octocat''" "''hello''" "''src/lib.js''" notFound
        "[File ''a.js'' ''src/a.js'']" "[File ''c.js'' ''src/c.js'']" "Inl notFound"
        exampleListing]
  by (simp add: brokenWorld_def exampleWorld_def exampleListing_def contentsUrl_def string_eval
        sortBy_def compareFiles_def Let_def)

section \<open>The connect flow\<close>

lemmas url_eval = extractIdentity_def matchHere_def notSlash_def Let_def

lemma takeWhile_segment:
  assumes "CHR ''/'' \<notin> set seg" and "rest = [] \<or> hd rest = CHR ''/''"
  shows "takeWhile notSlash (seg @ rest) = seg"
proof -
  have "takeWhile notSlash (seg @ rest) = seg @ takeWhile notSlash rest"
    using assms(1) by (intro takeWhile_append2) (auto simp: notSlash_def)
  moreover have "takeWhile notSlash rest = []"
    using assms(2) by (cases rest) (auto simp: notSlash_def)
  ultimately show ?thesis by simp
qed

lemma dropWhile_segment:
  assumes "CHR ''/'' \<notin> set seg"
  shows "dropWhile notSlash (seg @ CHR ''/'' # rest) = CHR ''/'' # rest"
proof -
  have "dropWhile notSlash (seg @ CHR ''/'' # rest) = dropWhile notSlash (CHR ''/'' # rest)"
    using assms by (intro dropWhile_append2) (auto simp: notSlash_def)
  then show ?thesis by (simp add: notSlash_def)
qed

lemma matchHere_shape:
  assumes "ow \<noteq> []" "CHR ''/'' \<notin> set ow" "rp \<noteq> []" "CHR ''/'' \<notin> set rp"
    and "rest = [] \<or> hd rest = CHR ''/''"
  shows "matchHere (''github.com/'' @ ow @ ''/'' @ rp @ rest) = Some (ow, rp)"
proof -
  have 1: "takeWhile notSlash (ow @ CHR ''/'' # rp @ rest) = ow"
    using takeWhile_segment [of ow "CHR ''/'' # rp @ rest"] assms(2) by simp
  have 2: "dropWhile notSlash (ow @ CHR ''/'' # rp @ rest) = CHR ''/'' # rp @ rest"
    using dropWhile_segment [OF assms(2)] by simp
  have 3: "takeWhile notSlash (rp @ rest) = rp"
    using takeWhile_segment [OF assms(4) assms(5)] .
  have "prefix ''github.com/'' (''github.com/'' @ ow @ ''/'' @ rp @ rest)"
    by (rule prefixI) simp
  moreover have "drop (length ''github.com/'') (''github.com/'' @ ow @ ''/'' @ rp @ rest) = ow @ CHR ''/'' # rp @ rest"
    by simp
  ultimately show ?thesis
    unfolding matchHere_def using 1 2 3 assms(1,3)
    by (simp only: Let_def if_True if_False list.case option.simps simp_thms)
qed

lemma prefix_shorter: "prefix xs (ys @ zs) \<Longrightarrow> length xs \<le> length ys \<Longrightarrow> prefix xs ys"
  by (auto simp: prefix_append)

lemma matchHere_None: "\<not> prefix ''github.com/'' s \<Longrightarrow> matchHere s = None"
  by (simp add: matchHere_def)

lemma matchRepoUrl_skip:
  "\<not> sublist ''github.com/'' (pre @ ''github.com'') \<Longrightarrow>
   matchRepoUrl (pre @ ''github.com/'' @ t) = matchRepoUrl (''github.com/'' @ t)"
proof (induction pre)
  case Nil
  show ?case by simp
next
  case (Cons c cs)
  have "\<not> prefix ''github.com/'' ((c # cs) @ ''github.com/'' @ t)"
  proof
    have e: "(c # cs) @ ''github.com/'' @ t = ((c # cs) @ ''github.com'') @ (''/'' @ t)"
      by simp
    assume "prefix ''github.com/'' ((c # cs) @ ''github.com/'' @ t)"
    then have "prefix ''github.com/'' (((c # cs) @ ''github.com'') @ (''/'' @ t))"
      unfolding e .
    then have "prefix ''github.com/'' ((c # cs) @ ''github.com'')"
      by (rule prefix_shorter) simp
    with Cons.prems show False
      by (blast intro: prefix_imp_sublist)
  qed
  then have "matchHere ((c # cs) @ ''github.com/'' @ t) = None"
    by (rule matchHere_None)
  moreover have "\<not> sublist ''github.com/'' (cs @ ''github.com'')"
    using Cons.prems by (simp add: sublist_Cons_right)
  ultimately show ?case
    using Cons.IH by simp
qed

lemma matchRepoUrl_here: "matchHere s = Some m \<Longrightarrow> matchRepoUrl s = Some m"
  by (cases s) (auto simp: matchHere_def)

lemma matchHere_Some:
  assumes "matchHere s = Some (ow, rp)"
  shows "\<exists>rest. s = ''github.com/'' @ ow @ ''/'' @ rp @ rest \<and> ow \<noteq> [] \<and> CHR ''/'' \<notin> set ow \<and>
           rp \<noteq> [] \<and> CHR ''/'' \<notin> set rp \<and> (rest = [] \<or> hd rest = CHR ''/'')"
proof -
  define t where "t = drop (length ''github.com/'') s"
  from assms have pre: "prefix ''github.com/'' s"
    by (auto simp: matchHere_def split: if_splits)
  then have s: "s = ''github.com/'' @ t"
    unfolding t_def by (metis append_eq_conv_conj prefix_def)
  from assms pre obtain c u where
    ow: "ow = takeWhile notSlash t" "ow \<noteq> []" and
    d: "dropWhile notSlash t = c # u" and
    rp: "rp = takeWhile notSlash u" "rp \<noteq> []"
    unfolding matchHere_def t_def [symmetric]
    by (auto simp: Let_def split: if_splits list.splits)
  have c: "c = CHR ''/''"
    using hd_dropWhile [of notSlash t] d by (simp add: notSlash_def)
  have t: "t = ow @ CHR ''/'' # u"
    using takeWhile_dropWhile_id [of notSlash t] d ow(1) c by simp
  have u: "u = rp @ dropWhile notSlash u"
    using rp(1) by simp
  have r: "dropWhile notSlash u = [] \<or> hd (dropWhile notSlash u) = CHR ''/''"
    using hd_dropWhile [of notSlash u] by (auto simp: notSlash_def)
  have "CHR ''/'' \<notin> set ow" "CHR ''/'' \<notin> set rp"
    using ow(1) rp(1) by (auto dest: set_takeWhileD simp: notSlash_def)
  moreover have "s = ''github.com/'' @ ow @ ''/'' @ rp @ dropWhile notSlash u"
    using s t u by simp
  ultimately show ?thesis
    using ow(2) rp(2) r by blast
qed

lemma matchRepoUrl_Some:
  "matchRepoUrl s = Some (ow, rp) \<Longrightarrow>
   \<exists>pre rest. s = pre @ ''github.com/'' @ ow @ ''/'' @ rp @ rest \<and> ow \<noteq> [] \<and>
      CHR ''/'' \<notin> set ow \<and> rp \<noteq> [] \<and> CHR ''/'' \<notin> set rp \<and> (rest = [] \<or> hd rest = CHR ''/'')"
proof (induction s)
  case Nil
  then show ?case by simp
next
  case (Cons c cs)
  show ?case
  proof (cases "matchHere (c # cs)")
    case (Some m)
    with Cons.prems have "matchHere (c # cs) = Some (ow, rp)" by simp
    from matchHere_Some [OF this] show ?thesis
      by (metis append_Nil)
  next
    case None
    with Cons.prems have "matchRepoUrl cs = Some (ow, rp)" by simp
    from Cons.IH [OF this] obtain pre rest where
      "cs = pre @ ''github.com/'' @ ow @ ''/'' @ rp @ rest \<and> ow \<noteq> [] \<and>
      CHR ''/'' \<notin> set ow \<and> rp \<noteq> [] \<and> CHR ''/'' \<notin> set rp \<and> (rest = [] \<or> hd rest = CHR ''/'')"
      by blast
    then have "c # cs = (c # pre) @ ''github.com/'' @ ow @ ''/'' @ rp @ rest \<and> ow \<noteq> [] \<and>
      CHR ''/'' \<notin> set ow \<and> rp \<noteq> [] \<and> CHR ''/'' \<notin> set rp \<and> (rest = [] \<or> hd rest = CHR ''/'')"
      by simp
    then show ?thesis by blast
  qed
qed

lemma matchRepoUrl_later:
  "matchRepoUrl t = Some m \<Longrightarrow> \<exists>m'. matchRepoUrl (pre @ t) = Some m'"
  by (induction pre) (auto split: option.splits)

lemma splitSlash_nonempty: "splitSlash t \<noteq> []"
  by (induction t) (auto split: list.splits)

lemma splitSlash_Cons:
  "splitSlash t = x # xs \<Longrightarrow>
   CHR ''/'' \<notin> set x \<and>
   (if xs = [] then t = x else (\<exists>u. t = x @ CHR ''/'' # u \<and> splitSlash u = xs))"
proof (induction t arbitrary: x xs)
  case Nil
  then show ?case by simp
next
  case (Cons c cs)
  show ?case
  proof (cases "c = CHR ''/''")
    case True
    with Cons.prems splitSlash_nonempty [of cs] show ?thesis by auto
  next
    case False
    obtain y ys where s: "splitSlash cs = y # ys"
      using splitSlash_nonempty [of cs] by (cases "splitSlash cs") auto
    with Cons.prems False have x: "x = c # y" "xs = ys" by auto
    from Cons.IH [OF s] x False show ?thesis by auto
  qed
qed

lemma splitSlash_three:
  assumes "splitSlash t = h # ow # rp # further"
  shows "\<exists>rest. t = h @ ''/'' @ ow @ ''/'' @ rp @ rest \<and> CHR ''/'' \<notin> set ow \<and>
           CHR ''/'' \<notin> set rp \<and> (rest = [] \<or> hd rest = CHR ''/'')"
proof -
  from splitSlash_Cons [OF assms] obtain u1 where
    1: "t = h @ CHR ''/'' # u1" "splitSlash u1 = ow # rp # further"
    by auto
  from splitSlash_Cons [OF 1(2)] obtain u2 where
    2: "CHR ''/'' \<notin> set ow" "u1 = ow @ CHR ''/'' # u2" "splitSlash u2 = rp # further"
    by auto
  from splitSlash_Cons [OF 2(3)] have
    3: "CHR ''/'' \<notin> set rp" "further = [] \<longrightarrow> u2 = rp"
       "further \<noteq> [] \<longrightarrow> (\<exists>u. u2 = rp @ CHR ''/'' # u)"
    by (auto split: if_splits)
  then obtain rest where "u2 = rp @ rest" "rest = [] \<or> hd rest = CHR ''/''"
    by (cases "further = []") auto
  with 1(1) 2(1,2) 3(1) show ?thesis by auto
qed

lemma stripScheme_cases:
  obtains pre t where "s = pre @ t" and "stripScheme s = t"
    and "pre \<in> {[], ''http://'', ''https://''}"
proof (cases "prefix ''https://'' s")
  case True
  then obtain t where t: "s = ''https://'' @ t"
    unfolding prefix_def by blast
  have "stripScheme (''https://'' @ t) = t"
    by (simp add: stripScheme_def)
  with t that [of "''https://''" t] show ?thesis by simp
next
  case False
  show ?thesis
  proof (cases "prefix ''http://'' s")
    case True
    then obtain t where t: "s = ''http://'' @ t"
      unfolding prefix_def by blast
    have "stripScheme (''http://'' @ t) = t"
      by (simp add: stripScheme_def)
    with t that [of "''http://''" t] show ?thesis by simp
  next
    case h: False
    with False have "stripScheme s = s"
      by (simp add: stripScheme_def)
    with that [of "[]" s] show ?thesis by simp
  qed
qed

lemma specShape_occurrence:
  assumes "specShape s = Some (ow, rp)"
  shows "\<exists>pre rest. occurrence s pre ow rp rest \<and> pre \<in> {[], ''http://'', ''https://''}"
proof -
  obtain pre t where s: "s = pre @ t" and st: "stripScheme s = t"
    and pre: "pre \<in> {[], ''http://'', ''https://''}"
    by (rule stripScheme_cases)
  from assms st obtain h further where
    sp: "splitSlash t = h # ow # rp # further" and
    h: "h = ''github.com''" and ne: "ow \<noteq> []" "rp \<noteq> []"
    by (auto simp: specShape_def split: list.splits if_splits)
  from splitSlash_three [OF sp] obtain rest where
    r: "t = h @ ''/'' @ ow @ ''/'' @ rp @ rest" "CHR ''/'' \<notin> set ow"
       "CHR ''/'' \<notin> set rp" "rest = [] \<or> hd rest = CHR ''/''"
    by blast
  have "t = ''github.com/'' @ ow @ ''/'' @ rp @ rest"
    using r(1) h by simp
  then have "s = pre @ ''github.com/'' @ ow @ ''/'' @ rp @ rest"
    using s by simp
  then have "occurrence s pre ow rp rest"
    unfolding occurrence_def using r(2-4) ne by blast
  with pre show ?thesis by blast
qed

lemma matchRepoUrl_leftmost:
  "(\<forall>i<length pre. matchHere (drop i (pre @ t)) = None) \<Longrightarrow>
   matchRepoUrl (pre @ t) = matchRepoUrl t"
proof (induction pre)
  case Nil
  show ?case by simp
next
  case (Cons c cs)
  from Cons.prems have "matchHere (drop 0 ((c # cs) @ t)) = None" by blast
  then have 0: "matchHere (c # cs @ t) = None" by simp
  have "\<forall>i<length cs. matchHere (drop i (cs @ t)) = None"
  proof (intro allI impI)
    fix i assume "i < length cs"
    then have "Suc i < length (c # cs)" by simp
    with Cons.prems have "matchHere (drop (Suc i) ((c # cs) @ t)) = None" by blast
    then show "matchHere (drop i (cs @ t)) = None" by simp
  qed
  from Cons.IH [OF this] 0 show ?case by simp
qed

lemma occurrence_match:
  assumes "occurrence s pre ow rp rest"
  shows "matchHere (drop (length pre) s) = Some (ow, rp)"
proof -
  from assms have "drop (length pre) s = ''github.com/'' @ ow @ ''/'' @ rp @ rest"
    by (simp add: occurrence_def)
  moreover have "matchHere (''github.com/'' @ ow @ ''/'' @ rp @ rest) = Some (ow, rp)"
    using assms by (intro matchHere_shape) (auto simp: occurrence_def)
  ultimately show ?thesis by simp
qed

lemma match_occurrence:
  assumes "matchHere (drop i s) = Some (ow, rp)" and "i \<le> length s"
  shows "\<exists>rest. occurrence s (take i s) ow rp rest"
proof -
  from matchHere_Some [OF assms(1)] obtain rest where
    r: "drop i s = ''github.com/'' @ ow @ ''/'' @ rp @ rest" "ow \<noteq> []" "CHR ''/'' \<notin> set ow"
       "rp \<noteq> []" "CHR ''/'' \<notin> set rp" "rest = [] \<or> hd rest = CHR ''/''"
    by blast
  have "take i s @ drop i s = s" by (rule append_take_drop_id)
  then have "s = take i s @ ''github.com/'' @ ow @ ''/'' @ rp @ rest"
    unfolding r(1) by (rule sym)
  with r(2-6) show ?thesis
    unfolding occurrence_def by blast
qed

lemma leftmost_occurrence:
  assumes o: "occurrence s pre ow rp rest"
    and m: "\<forall>pre' ow' rp' rest'. occurrence s pre' ow' rp' rest' \<longrightarrow> length pre \<le> length pre'"
  shows "matchRepoUrl s = Some (ow, rp)"
proof -
  obtain t where s: "s = pre @ t" "t = drop (length pre) s"
    using o by (auto simp: occurrence_def)
  have "\<forall>i<length pre. matchHere (drop i (pre @ t)) = None"
  proof (intro allI impI)
    fix i assume i: "i < length pre"
    show "matchHere (drop i (pre @ t)) = None"
    proof (cases "matchHere (drop i (pre @ t))")
      case None
      then show ?thesis .
    next
      case (Some x)
      obtain a b where "x = (a, b)" by (cases x)
      with Some s(1) have "matchHere (drop i s) = Some (a, b)" by simp
      moreover have "i \<le> length s" using i s(1) by simp
      ultimately obtain rest' where "occurrence s (take i s) a b rest'"
        using match_occurrence by blast
      with m have "length pre \<le> length (take i s)" by blast
      with i show ?thesis by simp
    qed
  qed
  then have "matchRepoUrl (pre @ t) = matchRepoUrl t"
    by (rule matchRepoUrl_leftmost)
  moreover have "matchHere t = Some (ow, rp)"
    using occurrence_match [OF o] s(2) by simp
  ultimately show ?thesis
    using s(1) by (simp add: matchRepoUrl_here)
qed

lemma scheme_occurrence:
  assumes "occurrence s pre ow rp rest" and "pre \<in> {[], ''http://'', ''https://''}"
  shows "matchRepoUrl s = Some (ow, rp)"
proof -
  have n: "\<not> sublist ''github.com/'' (pre @ ''github.com'')"
    using assms(2) by (auto simp: sublist_code)
  have "matchRepoUrl (pre @ ''github.com/'' @ ow @ ''/'' @ rp @ rest) =
        matchRepoUrl (''github.com/'' @ ow @ ''/'' @ rp @ rest)"
    using n by (rule matchRepoUrl_skip)
  also have "\<dots> = Some (ow, rp)"
    using assms(1) by (intro matchRepoUrl_here matchHere_shape) (auto simp: occurrence_def)
  finally show ?thesis
    using assms(1) by (simp add: occurrence_def)
qed

lemma extract_Some: "s \<noteq> [] \<Longrightarrow> matchRepoUrl s = Some (ow, rp) \<Longrightarrow>
   extractIdentity s = Inr \<lparr>owner = ow, repo = rp\<rparr>"
  by (simp add: extractIdentity_def)

lemma occurrence_nonempty: "occurrence s pre ow rp rest \<Longrightarrow> s \<noteq> []"
  by (auto simp: occurrence_def)

text \<open>
  C3. A string of the shape of the specification (an optional \<^verbatim>\<open>http://\<close> or \<^verbatim>\<open>https://\<close>,
  then \<^verbatim>\<open>github.com/\<close>, a non-empty owner segment, a slash and a non-empty repository segment,
  optionally followed by more path segments) yields these two segments as owner and repository.
  The expression is not anchored, so other strings are accepted too: a string yields an identity
  exactly when \<^verbatim>\<open>github.com/\<close>, a non-empty segment, a slash and a second non-empty segment
  occur in it anywhere, and the identity is that of the leftmost such occurrence. Only a string
  without any such occurrence fails, with the \<^verbatim>\<open>Error\<close> of an invalid or missing URL, an
  \<open>InputError\<close>.
\<close>

theorem identity_extraction_unanchored:
  "(specShape s = Some (ow, rp) \<longrightarrow> extractIdentity s = Inr \<lparr>owner = ow, repo = rp\<rparr>) \<and>
   (occurrence s pre ow rp rest \<and>
    (\<forall>pre' ow' rp' rest'. occurrence s pre' ow' rp' rest' \<longrightarrow> length pre \<le> length pre') \<longrightarrow>
    extractIdentity s = Inr \<lparr>owner = ow, repo = rp\<rparr>) \<and>
   (occurrence s pre ow rp rest \<longrightarrow> (\<exists>ident. extractIdentity s = Inr ident)) \<and>
   ((\<nexists>pre ow rp rest. occurrence s pre ow rp rest) \<longrightarrow>
    (\<exists>m. extractIdentity s = Inl (Error m) \<and> kindOf (Error m) = InputError))"
proof (intro conjI impI)
  assume "specShape s = Some (ow, rp)"
  from specShape_occurrence [OF this] obtain pre' rest' where
    "occurrence s pre' ow rp rest'" "pre' \<in> {[], ''http://'', ''https://''}"
    by blast
  then show "extractIdentity s = Inr \<lparr>owner = ow, repo = rp\<rparr>"
    using scheme_occurrence occurrence_nonempty extract_Some by blast
next
  assume "occurrence s pre ow rp rest \<and>
    (\<forall>pre' ow' rp' rest'. occurrence s pre' ow' rp' rest' \<longrightarrow> length pre \<le> length pre')"
  then show "extractIdentity s = Inr \<lparr>owner = ow, repo = rp\<rparr>"
    using leftmost_occurrence occurrence_nonempty extract_Some by blast
next
  assume o: "occurrence s pre ow rp rest"
  then have "matchRepoUrl (drop (length pre) s) = Some (ow, rp)"
    using occurrence_match matchRepoUrl_here by blast
  from matchRepoUrl_later [OF this, of pre] o obtain m' where "matchRepoUrl s = Some m'"
    by (auto simp: occurrence_def)
  with occurrence_nonempty [OF o] show "\<exists>ident. extractIdentity s = Inr ident"
    by (cases m') (simp add: extractIdentity_def)
next
  assume n: "\<nexists>pre ow rp rest. occurrence s pre ow rp rest"
  have "matchRepoUrl s = None"
  proof (cases "matchRepoUrl s")
    case None
    then show ?thesis .
  next
    case (Some m)
    obtain a b where "m = (a, b)" by (cases m)
    with Some matchRepoUrl_Some [of s a b] n show ?thesis
      unfolding occurrence_def by blast
  qed
  then show "\<exists>m. extractIdentity s = Inl (Error m) \<and> kindOf (Error m) = InputError"
    by (simp add: extractIdentity_def)
qed

lemmas shape_eval = specShape_def stripScheme_def

theorem identity_extraction_unanchored_witness:
  "specShape ''https://github.com/octocat/hello/tree/main'' = Some (''octocat'', ''hello'') \<and>
   extractIdentity ''https://github.com/octocat/hello/tree/main'' =
     Inr \<lparr>owner = ''octocat'', repo = ''hello''\<rparr> \<and>
   occurrence ''github.com/octocat/hello'' [] ''octocat'' ''hello'' [] \<and>
   extractIdentity ''github.com/octocat/hello'' = Inr \<lparr>owner = ''octocat'', repo = ''hello''\<rparr> \<and>
   extractIdentity ''gitlab.com/a/b'' = Inl (Error ''Invalid GitHub repository URL'') \<and>
   kindOf (Error ''Invalid GitHub repository URL'') = InputError"
proof -
  have a: "specShape ''https://github.com/octocat/hello/tree/main'' = Some (''octocat'', ''hello'')"
    by (simp add: shape_eval)
  have o: "occurrence ''github.com/octocat/hello'' [] ''octocat'' ''hello'' []"
    by (simp add: occurrence_def)
  have l: "\<forall>pre' ow' rp' rest'. occurrence ''github.com/octocat/hello'' pre' ow' rp' rest' \<longrightarrow>
             length ([] :: string) \<le> length pre'"
    by simp
  have n: "\<nexists>pre ow rp rest. occurrence ''gitlab.com/a/b'' pre ow rp rest"
  proof (intro notI, elim exE)
    fix pre ow rp rest
    assume "occurrence ''gitlab.com/a/b'' pre ow rp rest"
    then have "''gitlab.com/a/b'' = pre @ ''github.com/'' @ ow @ ''/'' @ rp @ rest"
      by (simp add: occurrence_def)
    then have "CHR ''h'' \<in> set ''gitlab.com/a/b''"
      by (simp only: set_append) simp
    then show False by simp
  qed
  from identity_extraction_unanchored
    [of "''https://github.com/octocat/hello/tree/main''" "''octocat''" "''hello''"] a
  have 1: "extractIdentity ''https://github.com/octocat/hello/tree/main'' =
     Inr \<lparr>owner = ''octocat'', repo = ''hello''\<rparr>"
    by blast
  from identity_extraction_unanchored
    [of "''github.com/octocat/hello''" "''octocat''" "''hello''" "[]" "[]"] o l
  have 2: "extractIdentity ''github.com/octocat/hello'' = Inr \<lparr>owner = ''octocat'', repo = ''hello''\<rparr>"
    by blast
  from identity_extraction_unanchored [of "''gitlab.com/a/b''"] n
  have 3: "\<exists>m. extractIdentity ''gitlab.com/a/b'' = Inl (Error m) \<and> kindOf (Error m) = InputError"
    by blast
  have 4: "extractIdentity ''gitlab.com/a/b'' = Inl (Error ''Invalid GitHub repository URL'')"
    by (simp add: url_eval)
  from a 1 o 2 3 4 show ?thesis by simp
qed

text \<open>
  Two strings that are not of the shape of the specification and yet yield an identity: a URL of
  another host whose name ends in \<^verbatim>\<open>github.com\<close>, and a sentence that mentions a repository.
\<close>

theorem identity_extraction_counterexample:
  "specShape ''http://notgithub.com/a/b'' = None \<and>
   extractIdentity ''http://notgithub.com/a/b'' = Inr \<lparr>owner = ''a'', repo = ''b''\<rparr> \<and>
   specShape ''see github.com/a/b for details'' = None \<and>
   extractIdentity ''see github.com/a/b for details'' =
     Inr \<lparr>owner = ''a'', repo = ''b for details''\<rparr>"
  by (simp add: shape_eval url_eval)

text \<open>
  C6. A connect whose lookup request is answered with status 200 puts the identity read from the
  URL into the storage slot. Every other connect leaves the slot as it was; when the lookup is
  answered with status 404 the page changes only by the error card.
\<close>

theorem connect_storage:
  "(configured (VITE_GITHUB_TOKEN e) \<and> extractIdentity url = Inr ident \<and>
    repoLookup w (owner ident) (repo ident) = Inr response \<and> status response = 200 \<longrightarrow>
    currentRepo (snd (connectRepository e w url pg)) = Some ident) \<and>
   (\<not> (configured (VITE_GITHUB_TOKEN e) \<and>
       (\<exists>ident response. extractIdentity url = Inr ident \<and>
          repoLookup w (owner ident) (repo ident) = Inr response \<and> status response = 200)) \<longrightarrow>
    currentRepo (snd (connectRepository e w url pg)) = currentRepo pg) \<and>
   (configured (VITE_GITHUB_TOKEN e) \<and> extractIdentity url = Inr ident \<and>
    repoLookup w (owner ident) (repo ident) = Inl (AxiosError (Some 404) m) \<longrightarrow>
    snd (connectRepository e w url pg) =
      pg\<lparr>statusCard :=
           Some (''Error connecting to repository. Repository not found or private.'', ''error'')\<rparr>)"
  by (auto simp: connectRepository_def connectTry_def connectErrorMessage_def
           split: sum.splits option.splits)

theorem connect_storage_witness:
  "currentRepo (snd (connectRepository exampleEnv exampleWorld ''https://github.com/octocat/hello''
      (examplePage\<lparr>currentRepo := None\<rparr>))) = Some \<lparr>owner = ''octocat'', repo = ''hello''\<rparr> \<and>
   snd (connectRepository exampleEnv exampleWorld ''https://github.com/nobody/nothing'' examplePage) =
     examplePage\<lparr>statusCard :=
       Some (''Error connecting to repository. Repository not found or private.'', ''error'')\<rparr> \<and>
   currentRepo (snd (connectRepository exampleEnv exampleWorld ''https://github.com/nobody/nothing''
      examplePage)) = Some \<lparr>owner = ''octocat'', repo = ''hello''\<rparr>"
proof -
  have a: "extractIdentity ''https://github.com/octocat/hello'' =
             Inr \<lparr>owner = ''octocat'', repo = ''hello''\<rparr>"
    by (simp add: url_eval)
  have b: "extractIdentity ''https://github.com/nobody/nothing'' =
             Inr \<lparr>owner = ''nobody'', repo = ''nothing''\<rparr>"
    by (simp add: url_eval)
  have c: "repoLookup exampleWorld ''octocat'' ''hello'' =
             Inr \<lparr>status = 200, data_description = Some ''A greeting''\<rparr>"
    by (simp add: exampleWorld_def)
  have d: "repoLookup exampleWorld ''nobody'' ''nothing'' =
             Inl (AxiosError (Some 404) ''Request failed with status code 404'')"
    by (simp add: exampleWorld_def notFound_def)
  have t: "configured (VITE_GITHUB_TOKEN exampleEnv)"
    by (simp add: exampleEnv_def configured_def)
  from connect_storage
    [of exampleEnv "''https://github.com/octocat/hello''" "\<lparr>owner = ''octocat'', repo = ''hello''\<rparr>"
        exampleWorld "\<lparr>status = 200, data_description = Some ''A greeting''\<rparr>"
        "examplePage\<lparr>currentRepo := None\<rparr>"] a c t
  have 1: "currentRepo (snd (connectRepository exampleEnv exampleWorld
      ''https://github.com/octocat/hello'' (examplePage\<lparr>currentRepo := None\<rparr>))) =
      Some \<lparr>owner = ''octocat'', repo = ''hello''\<rparr>"
    by simp
  from connect_storage
    [of exampleEnv "''https://github.com/nobody/nothing''" "\<lparr>owner = ''nobody'', repo = ''nothing''\<rparr>"
        exampleWorld _ examplePage "''Request failed with status code 404''"] b d t
  have 2: "snd (connectRepository exampleEnv exampleWorld ''https://github.com/nobody/nothing''
       examplePage) = examplePage\<lparr>statusCard :=
       Some (''Error connecting to repository. Repository not found or private.'', ''error'')\<rparr>"
    and 3: "currentRepo (snd (connectRepository exampleEnv exampleWorld
       ''https://github.com/nobody/nothing'' examplePage)) = currentRepo examplePage"
    by simp_all
  from 1 2 3 show ?thesis by (simp add: examplePage_def)
qed

section \<open>The Repository Structure Fetcher\<close>

text \<open>
  C9. \<^verbatim>\<open>getRepositoryStructure\<close> always issues the metadata request first and throws its
  rejection on. When that request succeeds, the requests for \<^verbatim>\<open>package.json\<close> and
  \<^verbatim>\<open>README.md\<close> are both issued and the structure is returned: \<^verbatim>\<open>packageJson\<close> is
  \<^verbatim>\<open>null\<close> when the file cannot be fetched or parsed, \<^verbatim>\<open>readme\<close> is \<^verbatim>\<open>null\<close> when the
  file cannot be fetched, each whatever the outcome of the other.
\<close>

theorem structure_fetch_degrades:
  "fst (getRepositoryStructure js w ow rp) \<noteq> [] \<and>
   hd (fst (getRepositoryStructure js w ow rp)) = GET (repoUrl ow rp) \<and>
   (repoLookup w ow rp = Inl e \<longrightarrow> snd (getRepositoryStructure js w ow rp) = Inl e) \<and>
   (repoLookup w ow rp = Inr response \<longrightarrow>
      fst (getRepositoryStructure js w ow rp) =
        [GET (repoUrl ow rp), GET (contentsUrl ow rp ''package.json''),
         GET (contentsUrl ow rp ''README.md'')] \<and>
      snd (getRepositoryStructure js w ow rp) = Inr
        \<lparr>description = data_description response,
         packageJson =
           (case fileBody w ow rp ''package.json'' of
              Inl e1 \<Rightarrow> JNull
            | Inr s \<Rightarrow> (case JSON_parse js s of None \<Rightarrow> JNull | Some j \<Rightarrow> j)),
         readme =
           (case fileBody w ow rp ''README.md'' of Inl e2 \<Rightarrow> None | Inr r \<Rightarrow> Some r)\<rparr>)"
  by (auto simp: getRepositoryStructure_def Let_def split: sum.splits)

theorem structure_fetch_degrades_witness:
  "getRepositoryStructure exampleJson exampleWorld ''octocat'' ''hello'' =
     ([GET ''https://api.github.com/repos/octocat/hello'',
       GET ''https://api.github.com/repos/octocat/hello/contents/package.json'',
       GET ''https://api.github.com/repos/octocat/hello/contents/README.md''],
      Inr \<lparr>description = Some ''A greeting'', packageJson = JNull,
           readme = Some ''// README.md''\<rparr>) \<and>
   hd (fst (getRepositoryStructure exampleJson exampleWorld ''nobody'' ''nothing'')) =
     GET ''https://api.github.com/repos/nobody/nothing'' \<and>
   snd (getRepositoryStructure exampleJson exampleWorld ''nobody'' ''nothing'') = Inl notFound"
  using structure_fetch_degrades [of exampleJson exampleWorld "''octocat''" "''hello''"]
        structure_fetch_degrades [of exampleJson exampleWorld "''nobody''" "''nothing''" notFound]
  by (auto simp: exampleWorld_def prod_eq_iff repoUrl_def contentsUrl_def)

section \<open>The Documentation Generator\<close>

lemmas run_eval =
  generateDocumentation_def generateTry_def generate_def getRepositoryStructure_def
  getMainSourceFiles_def exampleWorld_def exampleListing_def exampleEnv_def examplePage_def
  exampleJson_def configured_def notFound_def string_eval sortBy_def compareFiles_def Let_def

text \<open>The two fetchers issue GET requests only.\<close>

lemma walk_requests_get:
  "\<forall>r \<in> set (fst (getFilesFromDirectory w ow rp xs)). \<exists>u. r = GET u"
proof (induction w ow rp xs rule: getFilesFromDirectory.induct)
  case (1 w ow rp)
  show ?case by simp
next
  case (2 w ow rp name p items)
  show ?case
  proof (cases "admitted name")
    case False
    with 2 show ?thesis by simp
  next
    case True
    show ?thesis
    proof (cases "fileBody w ow rp p")
      case (Inl e)
      from 2(1) [OF True Inl] True Inl show ?thesis
        by (simp add: case_prod_unfold Let_def)
    next
      case (Inr c)
      from 2(2) [OF True Inr] True Inr show ?thesis
        by (simp add: case_prod_unfold Let_def)
    qed
  qed
next
  case (3 w ow rp name p answer items)
  show ?case
  proof (cases answer)
    case (Inl e)
    from 3(1) [OF Inl] Inl show ?thesis
      by (simp add: case_prod_unfold Let_def)
  next
    case (Inr b)
    show ?thesis
    proof (cases b)
      case NotIterable
      from 3(4) [OF Inr NotIterable] Inr NotIterable show ?thesis
        by (simp add: case_prod_unfold Let_def)
    next
      case (Listing ds)
      from 3(2) [OF Inr Listing] 3(3) [OF Inr Listing refl prod.collapse] Inr Listing
      show ?thesis
        by (auto simp: case_prod_unfold Let_def)
    qed
  qed
next
  case (4 w ow rp name p ty items)
  then show ?case by simp
qed

lemma selector_requests_get:
  "\<forall>r \<in> set (fst (getMainSourceFiles w ow rp)). \<exists>u. r = GET u"
  using walk_requests_get [of w ow rp]
  by (auto simp: getMainSourceFiles_def case_prod_unfold Let_def split: sum.splits contents.splits)

lemma structure_requests_get:
  "\<forall>r \<in> set (fst (getRepositoryStructure js w ow rp)). \<exists>u. r = GET u"
  by (auto simp: getRepositoryStructure_def Let_def split: sum.splits)

lemma structure_readme:
  "snd (getRepositoryStructure js w ow rp) = Inr st \<Longrightarrow> fileBody w ow rp ''README.md'' = Inr r \<Longrightarrow>
   readme st = Some r"
  by (auto simp: getRepositoryStructure_def Let_def split: sum.splits)

lemma readme_in_userMessage:
  assumes "readme st = Some r"
  shows "sublist r (userMessage js ri st files)"
proof (cases "r = []")
  case True
  then show ?thesis by simp
next
  case False
  have "userMessage js ri st files =
          (''Generate a README.md documentation for the project '' @ owner ri @ ''/'' @
           repo ri @ ''\<newline>\<newline>Project Context:\<newline>'' @
           (case description st of
              None \<Rightarrow> ''No description provided''
            | Some d \<Rightarrow> if d = [] then ''No description provided'' else d) @
           ''\<newline>'' @ ''\<newline>From README:\<newline>'') @ r @
          (''\<newline>'' @
           (if truthy (packageJson st) then
              ''\<newline>Dependencies:\<newline>'' @
              (case dependencies (packageJson st) of
                 None \<Rightarrow> ''undefined''
               | Some deps \<Rightarrow> JSON_stringify js deps)
            else []) @
           ''\<newline>\<newline>Source Files:\<newline>'' @
           join ''\<newline>''
             (map (\<lambda>file. ''\<newline>--- '' @ path file @ '' ---\<newline>'' @ content file) files) @
           ''\<newline>\<newline>'' @ instructions)"
    unfolding userMessage_def using assms False
    by (simp only: option.case if_False append_assoc)
  then show ?thesis
    by (simp only: sublist_appendI)
qed

lemma generateTry_post:
  assumes "POST u body \<in> set (fst (generateTry e js w pg))"
  shows "\<exists>ri st files. currentRepo pg = Some ri \<and>
           snd (getRepositoryStructure js w (owner ri) (repo ri)) = Inr st \<and>
           body = requestData js ri st files"
proof -
  from assms have k: "configured (VITE_OPENAI_API_KEY e)"
    by (auto simp: generateTry_def split: if_splits)
  from assms k obtain ri where ri: "currentRepo pg = Some ri"
    by (cases "currentRepo pg") (auto simp: generateTry_def)
  obtain rs1 x where s: "getRepositoryStructure js w (owner ri) (repo ri) = (rs1, x)"
    by (cases "getRepositoryStructure js w (owner ri) (repo ri)")
  obtain rs2 y where m: "getMainSourceFiles w (owner ri) (repo ri) = (rs2, y)"
    by (cases "getMainSourceFiles w (owner ri) (repo ri)")
  have g1: "POST u body \<notin> set rs1"
    using structure_requests_get [of js w "owner ri" "repo ri"] s by auto
  have g2: "POST u body \<notin> set rs2"
    using selector_requests_get [of w "owner ri" "repo ri"] m by auto
  from assms k ri s m g1 g2 obtain st files where
    "x = Inr st" "y = Inr files" "POST u body \<in> set (fst (generate js w ri st files))"
    by (cases x; cases y) (auto simp: generateTry_def split: prod.splits)
  moreover from this(3) have "body = requestData js ri st files"
    by (auto simp: generate_def Let_def split: if_splits sum.splits)
  ultimately show ?thesis
    using ri s by auto
qed

text \<open>
  C5. With no selected file the generator throws the \<^verbatim>\<open>Error\<close> of the missing source files,
  an \<open>InputError\<close>, and has issued no request. In the handler, where the structure and the files
  have just been read from the repository, the run ends with that error after the requests of
  these two reads, all of them GET requests: no request goes to the completion endpoint.
\<close>

theorem empty_selection_fails_before_request:
  "generate js w ri st [] =
     ([], Inl (Error ''No source files found. Please ensure the repository contains JavaScript/TypeScript files.'')) \<and>
   kindOf (Error ''No source files found. Please ensure the repository contains JavaScript/TypeScript files.'') = InputError \<and>
   (configured (VITE_OPENAI_API_KEY e) \<and> currentRepo pg = Some ri \<and>
    getRepositoryStructure js w (owner ri) (repo ri) = (rs1, Inr st) \<and>
    getMainSourceFiles w (owner ri) (repo ri) = (rs2, Inr []) \<longrightarrow>
    generateTry e js w pg =
      (rs1 @ rs2, Inl (Error ''No source files found. Please ensure the repository contains JavaScript/TypeScript files.'')) \<and>
    (\<forall>r \<in> set (fst (generateTry e js w pg)). \<exists>u. r = GET u))"
proof (intro conjI impI)
  show "generate js w ri st [] =
     ([], Inl (Error ''No source files found. Please ensure the repository contains JavaScript/TypeScript files.''))"
    by (simp add: generate_def)
next
  show "kindOf (Error ''No source files found. Please ensure the repository contains JavaScript/TypeScript files.'') = InputError"
    by simp
next
  assume a: "configured (VITE_OPENAI_API_KEY e) \<and> currentRepo pg = Some ri \<and>
    getRepositoryStructure js w (owner ri) (repo ri) = (rs1, Inr st) \<and>
    getMainSourceFiles w (owner ri) (repo ri) = (rs2, Inr [])"
  then show t: "generateTry e js w pg =
      (rs1 @ rs2, Inl (Error ''No source files found. Please ensure the repository contains JavaScript/TypeScript files.''))"
    by (simp add: generateTry_def generate_def)
  show "\<forall>r \<in> set (fst (generateTry e js w pg)). \<exists>u. r = GET u"
    using structure_requests_get [of js w "owner ri" "repo ri"]
          selector_requests_get [of w "owner ri" "repo ri"] a
    by (auto simp: t)
qed

theorem empty_selection_fails_before_request_witness:
  "generateTry exampleEnv exampleJson
     (exampleWorld\<lparr>srcContents := \<lambda>ow rp. Inr (Listing [File ''x.test.js'' ''src/x.test.js''])\<rparr>)
     examplePage =
     ([GET ''https://api.github.com/repos/octocat/hello'',
       GET ''https://api.github.com/repos/octocat/hello/contents/package.json'',
       GET ''https://api.github.com/repos/octocat/hello/contents/README.md'',
       GET ''https://api.github.com/repos/octocat/hello/contents/src''],
      Inl (Error ''No source files found. Please ensure the repository contains JavaScript/TypeScript files.''))"
  using empty_selection_fails_before_request
    [where js = exampleJson
       and w = "exampleWorld\<lparr>srcContents := \<lambda>ow rp. Inr (Listing [File ''x.test.js'' ''src/x.test.js''])\<rparr>"
       and ri = "\<lparr>owner = ''octocat'', repo = ''hello''\<rparr>"
       and st = "\<lparr>description = Some ''A greeting'', packageJson = JNull, readme = Some ''// README.md''\<rparr>"
       and e = exampleEnv and pg = examplePage
       and ?rs1.0 = "[GET ''https://api.github.com/repos/octocat/hello'',
          GET ''https://api.github.com/repos/octocat/hello/contents/package.json'',
          GET ''https://api.github.com/repos/octocat/hello/contents/README.md'']"
       and ?rs2.0 = "[GET ''https://api.github.com/repos/octocat/hello/contents/src'']"]
  by (simp add: getRepositoryStructure_def getMainSourceFiles_def exampleWorld_def
        exampleEnv_def examplePage_def exampleJson_def configured_def notFound_def string_eval
        repoUrl_def contentsUrl_def Let_def sortBy_def)

text \<open>
  C4. When the completion endpoint answers with data whose \<^verbatim>\<open>choices\<close> is missing or empty,
  reading the first choice throws a \<^verbatim>\<open>TypeError\<close>, a \<open>TransportError\<close>, after the one POST.
  The handler catches it: the page changes only by an error card with a non-empty message, and
  the preview area shows no documentation.
\<close>

theorem missing_choices_fail:
  "(sourceFiles \<noteq> [] \<and> completion w (requestData js ri st sourceFiles) = Inr response \<and>
    (choices response = None \<or> choices response = Some []) \<longrightarrow>
    (\<exists>m. generate js w ri st sourceFiles =
            ([POST completionUrl (requestData js ri st sourceFiles)], Inl (TypeError m)) \<and>
          m \<noteq> [] \<and> kindOf (TypeError m) = TransportError)) \<and>
   (configured (VITE_OPENAI_API_KEY e) \<and> currentRepo pg = Some ri \<and>
    snd (getRepositoryStructure js w (owner ri) (repo ri)) = Inr st \<and>
    snd (getMainSourceFiles w (owner ri) (repo ri)) = Inr sourceFiles \<and>
    sourceFiles \<noteq> [] \<and> completion w (requestData js ri st sourceFiles) = Inr response \<and>
    (choices response = None \<or> choices response = Some []) \<longrightarrow>
    (\<exists>m. m \<noteq> [] \<and>
          snd (generateDocumentation e js w pg) = pg\<lparr>statusCard := Some (m, ''error'')\<rparr>))"
proof (intro conjI impI)
  assume "sourceFiles \<noteq> [] \<and> completion w (requestData js ri st sourceFiles) = Inr response \<and>
    (choices response = None \<or> choices response = Some [])"
  then show "\<exists>m. generate js w ri st sourceFiles =
            ([POST completionUrl (requestData js ri st sourceFiles)], Inl (TypeError m)) \<and>
          m \<noteq> [] \<and> kindOf (TypeError m) = TransportError"
    by (auto simp: generate_def Let_def)
next
  assume a: "configured (VITE_OPENAI_API_KEY e) \<and> currentRepo pg = Some ri \<and>
    snd (getRepositoryStructure js w (owner ri) (repo ri)) = Inr st \<and>
    snd (getMainSourceFiles w (owner ri) (repo ri)) = Inr sourceFiles \<and>
    sourceFiles \<noteq> [] \<and> completion w (requestData js ri st sourceFiles) = Inr response \<and>
    (choices response = None \<or> choices response = Some [])"
  then obtain m where g: "snd (generate js w ri st sourceFiles) = Inl (TypeError m)" "m \<noteq> []"
    by (auto simp: generate_def Let_def)
  obtain rs1 where s: "getRepositoryStructure js w (owner ri) (repo ri) = (rs1, Inr st)"
    using a by (cases "getRepositoryStructure js w (owner ri) (repo ri)") auto
  obtain rs2 where f: "getMainSourceFiles w (owner ri) (repo ri) = (rs2, Inr sourceFiles)"
    using a by (cases "getMainSourceFiles w (owner ri) (repo ri)") auto
  obtain rs3 where h: "generate js w ri st sourceFiles = (rs3, Inl (TypeError m))"
    using g by (cases "generate js w ri st sourceFiles") auto
  have "snd (generateTry e js w pg) = Inl (TypeError m)"
    using a s f h by (simp add: generateTry_def)
  then have "snd (generateDocumentation e js w pg) = pg\<lparr>statusCard := Some (m, ''error'')\<rparr>"
    using g(2) by (cases "generateTry e js w pg") (simp add: generateDocumentation_def)
  with g(2) show "\<exists>m. m \<noteq> [] \<and>
          snd (generateDocumentation e js w pg) = pg\<lparr>statusCard := Some (m, ''error'')\<rparr>"
    by blast
qed

theorem missing_choices_fail_witness:
  "snd (generateDocumentation exampleEnv exampleJson
          (exampleWorld\<lparr>completion := \<lambda>body. Inr \<lparr>choices = Some []\<rparr>\<rparr>) examplePage) =
     examplePage\<lparr>statusCard :=
       Some (''Cannot read properties of undefined (reading '' @ [CHR 0x27] @ ''message'' @
             [CHR 0x27] @ '')'', ''error'')\<rparr> \<and>
   snd (generateDocumentation exampleEnv exampleJson
          (exampleWorld\<lparr>completion := \<lambda>body. Inr \<lparr>choices = None\<rparr>\<rparr>) examplePage) =
     examplePage\<lparr>statusCard :=
       Some (''Cannot read properties of undefined (reading '' @ [CHR 0x27] @ ''0'' @
             [CHR 0x27] @ '')'', ''error'')\<rparr>"
  using missing_choices_fail
    [where sourceFiles = "[\<lparr>path = ''src/index.js'', content = ''// src/index.js''\<rparr>,
         \<lparr>path = ''src/main.ts'', content = ''// src/main.ts''\<rparr>,
         \<lparr>path = ''src/app.jsx'', content = ''// src/app.jsx''\<rparr>,
         \<lparr>path = ''src/utils.js'', content = ''// src/utils.js''\<rparr>]"
       and w = "exampleWorld\<lparr>completion := \<lambda>body. Inr \<lparr>choices = Some []\<rparr>\<rparr>"
       and js = exampleJson and ri = "\<lparr>owner = ''octocat'', repo = ''hello''\<rparr>"
       and st = "\<lparr>description = Some ''A greeting'', packageJson = JNull, readme = Some ''// README.md''\<rparr>"
       and response = "\<lparr>choices = Some []\<rparr>" and e = exampleEnv and pg = examplePage]
  by (simp add: run_eval)

text \<open>
  C10. The text of a README that is in the repository structure is a contiguous part of the user
  message of the request data. In a run of \<^verbatim>\<open>generateDocumentation\<close> in which the body of
  \<^verbatim>\<open>README.md\<close> can be fetched, every POST the run issues carries that body as a contiguous
  part of its user message.
\<close>

theorem readme_in_request:
  "(readme st = Some rd \<longrightarrow> sublist rd (userContent (requestData js ri st files))) \<and>
   (currentRepo pg = Some ri \<and> fileBody w (owner ri) (repo ri) ''README.md'' = Inr rd \<and>
    POST u body \<in> set (fst (generateDocumentation e js w pg)) \<longrightarrow>
    sublist rd (userContent body))"
proof (intro conjI impI)
  assume "readme st = Some rd"
  then show "sublist rd (userContent (requestData js ri st files))"
    by (simp add: requestData_def readme_in_userMessage)
next
  assume a: "currentRepo pg = Some ri \<and> fileBody w (owner ri) (repo ri) ''README.md'' = Inr rd \<and>
    POST u body \<in> set (fst (generateDocumentation e js w pg))"
  then have "POST u body \<in> set (fst (generateTry e js w pg))"
    by (auto simp: generateDocumentation_def split: prod.splits sum.splits)
  from generateTry_post [OF this] a obtain st' files' where
    st: "snd (getRepositoryStructure js w (owner ri) (repo ri)) = Inr st'" and
    b: "body = requestData js ri st' files'"
    by auto
  from structure_readme [OF st] a have "readme st' = Some rd" by simp
  then show "sublist rd (userContent body)"
    by (simp add: b requestData_def readme_in_userMessage)
qed

theorem readme_in_request_witness:
  "POST completionUrl
     (requestData exampleJson \<lparr>owner = ''octocat'', repo = ''hello''\<rparr>
        \<lparr>description = Some ''A greeting'', packageJson = JNull, readme = Some ''// README.md''\<rparr>
        [\<lparr>path = ''src/index.js'', content = ''// src/index.js''\<rparr>,
         \<lparr>path = ''src/main.ts'', content = ''// src/main.ts''\<rparr>,
         \<lparr>path = ''src/app.jsx'', content = ''// src/app.jsx''\<rparr>,
         \<lparr>path = ''src/utils.js'', content = ''// src/utils.js''\<rparr>])
     \<in> set (fst (generateDocumentation exampleEnv exampleJson exampleWorld examplePage)) \<and>
   sublist ''// README.md''
     (userContent
       (requestData exampleJson \<lparr>owner = ''octocat'', repo = ''hello''\<rparr>
        \<lparr>description = Some ''A greeting'', packageJson = JNull, readme = Some ''// README.md''\<rparr>
        [\<lparr>path = ''src/index.js'', content = ''// src/index.js''\<rparr>,
         \<lparr>path = ''src/main.ts'', content = ''// src/main.ts''\<rparr>,
         \<lparr>path = ''src/app.jsx'', content = ''// src/app.jsx''\<rparr>,
         \<lparr>path = ''src/utils.js'', content = ''// src/utils.js''\<rparr>]))"
proof -
  have h: "POST completionUrl
     (requestData exampleJson \<lparr>owner = ''octocat'', repo = ''hello''\<rparr>
        \<lparr>description = Some ''A greeting'', packageJson = JNull, readme = Some ''// README.md''\<rparr>
        [\<lparr>path = ''src/index.js'', content = ''// src/index.js''\<rparr>,
         \<lparr>path = ''src/main.ts'', content = ''// src/main.ts''\<rparr>,
         \<lparr>path = ''src/app.jsx'', content = ''// src/app.jsx''\<rparr>,
         \<lparr>path = ''src/utils.js'', content = ''// src/utils.js''\<rparr>])
     \<in> set (fst (generateDocumentation exampleEnv exampleJson exampleWorld examplePage))"
    by (simp add: run_eval)
  have c: "currentRepo examplePage = Some \<lparr>owner = ''octocat'', repo = ''hello''\<rparr>"
    by (simp add: examplePage_def)
  have f: "fileBody exampleWorld (owner \<lparr>owner = ''octocat'', repo = ''hello''\<rparr>)
             (repo \<lparr>owner = ''octocat'', repo = ''hello''\<rparr>) ''README.md'' = Inr ''// README.md''"
    by (simp add: exampleWorld_def)
  from readme_in_request
    [where rd = "''// README.md''" and ri = "\<lparr>owner = ''octocat'', repo = ''hello''\<rparr>"
       and pg = examplePage and w = exampleWorld and u = completionUrl and e = exampleEnv
       and js = exampleJson] h c f
  show ?thesis by blast
qed

end
